theory Spec2Isabelle
  imports Complex_Main "HOL-Library.Sublist" "HOL-Library.AList" "HOL-Library.Code_Target_Numeral"
begin

section \<open>JavaScript values\<close>

text \<open>
  The generator and the node templates work on untyped JavaScript values
  (\<^verbatim>\<open>Record<string, any>\<close>).  A value is modelled by \<open>jsval\<close>.  Strings are
  sequences of code units below 256; numbers are the integral ones (the DSL's
  fractional literals are outside the model); an object is the list of its own
  properties in insertion order, and property names are assumed not to collide
  with the properties every object inherits from \<^verbatim>\<open>Object.prototype\<close>.
\<close>

datatype jsval =
    JUndefined
  | JNull
  | JBool bool
  | JNum int
  | JStr string
  | JArr "jsval list"
  | JObj "(string \<times> jsval) list"

type_synonym params = "(string \<times> jsval) list"

text \<open>Every \<^verbatim>\<open>throw\<close> of the sources and every \<^verbatim>\<open>TypeError\<close> the runtime raises
  on a missing method is a value of \<open>error\<close>.\<close>

datatype error =
    ModuleResolutionNotImplemented
  | UnknownNodeType string
  | UnsupportedExpressionType
  | SourceNodeNotFound string
  | TargetNodeNotFound string
  | TypeError string

text \<open>\<^verbatim>\<open>if (v)\<close>, \<^verbatim>\<open>a || b\<close> and \<^verbatim>\<open>!v\<close>: JavaScript truthiness.\<close>

fun truthy :: "jsval \<Rightarrow> bool" where
  "truthy JUndefined = False"
| "truthy JNull = False"
| "truthy (JBool b) = b"
| "truthy (JNum n) = (n \<noteq> 0)"
| "truthy (JStr s) = (s \<noteq> [])"
| "truthy (JArr xs) = True"
| "truthy (JObj kvs) = True"

definition js_or :: "jsval \<Rightarrow> jsval \<Rightarrow> jsval" where
  "js_or a b = (if truthy a then a else b)"

text \<open>\<^verbatim>\<open>params.key\<close> on a plain record: the property, or \<^verbatim>\<open>undefined\<close>.\<close>

definition get_prop :: "params \<Rightarrow> string \<Rightarrow> jsval" where
  "get_prop ps k = (case map_of ps k of Some v \<Rightarrow> v | None \<Rightarrow> JUndefined)"

text \<open>\<^verbatim>\<open>typeof v === 'object'\<close> holds of objects, arrays and \<^verbatim>\<open>null\<close>.\<close>

fun typeof_object :: "jsval \<Rightarrow> bool" where
  "typeof_object (JObj kvs) = True"
| "typeof_object (JArr xs) = True"
| "typeof_object JNull = True"
| "typeof_object v = False"

subsection \<open>Strings\<close>

text \<open>White space as \<^verbatim>\<open>String.prototype.trim\<close> and the regular expression class
  \<^verbatim>\<open>\s\<close> see it, and the line terminators that \<^verbatim>\<open>.\<close> does not match.\<close>

definition is_space :: "char \<Rightarrow> bool" where
  "is_space c = (c \<in> set [CHR 0x09, CHR 0x0A, CHR 0x0B, CHR 0x0C, CHR 0x0D, CHR 0x20, CHR 0xA0])"

definition is_line_terminator :: "char \<Rightarrow> bool" where
  "is_line_terminator c = (c = CHR 0x0A \<or> c = CHR 0x0D)"

definition js_trim :: "string \<Rightarrow> string" where
  "js_trim s = rev (dropWhile is_space (rev (dropWhile is_space s)))"

definition is_digit :: "char \<Rightarrow> bool" where
  "is_digit c = (c \<in> set ''0123456789'')"

fun string_of_nat :: "nat \<Rightarrow> string" where
  "string_of_nat n =
     (if n < 10 then [''0123456789'' ! n]
      else string_of_nat (n div 10) @ [''0123456789'' ! (n mod 10)])"

declare string_of_nat.simps [simp del]

definition string_of_int :: "int \<Rightarrow> string" where
  "string_of_int i = (if i < 0 then CHR ''-'' # string_of_nat (nat (- i)) else string_of_nat (nat i))"

text \<open>\<^verbatim>\<open>xs.join(',')\<close> on already rendered elements.\<close>

fun join_comma :: "string list \<Rightarrow> string" where
  "join_comma [] = []"
| "join_comma [s] = s"
| "join_comma (s # t # ss) = s @ '','' @ join_comma (t # ss)"

text \<open>\<^verbatim>\<open>String(v)\<close>.  An array renders its elements joined by commas, with
  \<^verbatim>\<open>null\<close> and \<^verbatim>\<open>undefined\<close> elements rendered empty; a plain object renders as
  \<^verbatim>\<open>[object Object]\<close>.\<close>

fun js_String :: "jsval \<Rightarrow> string" where
  "js_String JUndefined = ''undefined''"
| "js_String JNull = ''null''"
| "js_String (JBool b) = (if b then ''true'' else ''false'')"
| "js_String (JNum n) = string_of_int n"
| "js_String (JStr s) = s"
| "js_String (JArr xs) =
     join_comma (map (\<lambda>x. if x = JUndefined \<or> x = JNull then [] else js_String x) xs)"
| "js_String (JObj kvs) = ''[object Object]''"

text \<open>Quote characters, and a text between single quotes.\<close>

definition is_quote :: "char \<Rightarrow> bool" where
  "is_quote c = (c = CHR 0x27 \<or> c = CHR 0x22)"

definition quoted :: "string \<Rightarrow> string" where
  "quoted s = [CHR 0x27] @ s @ [CHR 0x27]"

subsection \<open>Numeric strings\<close>

text \<open>
  \<^verbatim>\<open>!isNaN(Number(s))\<close> on a string: after trimming, the empty string converts to 0,
  and otherwise the text must be a numeric literal: a radix-prefixed integer
  (\<^verbatim>\<open>0x\<close>, \<^verbatim>\<open>0o\<close>, \<^verbatim>\<open>0b\<close>) or an optionally signed decimal literal
  (\<^verbatim>\<open>Infinity\<close>, digits with an optional fraction and exponent).
\<close>

definition all_in :: "string \<Rightarrow> string \<Rightarrow> bool" where
  "all_in alphabet s = (s \<noteq> [] \<and> list_all (\<lambda>c. c \<in> set alphabet) s)"

definition is_exponent :: "string \<Rightarrow> bool" where
  "is_exponent s =
     (case s of
        [] \<Rightarrow> True
      | c # r \<Rightarrow>
          (c = CHR ''e'' \<or> c = CHR ''E'') \<and>
          (case r of
             [] \<Rightarrow> False
           | d # r' \<Rightarrow> if d = CHR ''+'' \<or> d = CHR ''-'' then all_in ''0123456789'' r'
                       else all_in ''0123456789'' r))"

definition is_unsigned_decimal :: "string \<Rightarrow> bool" where
  "is_unsigned_decimal s =
     (if s = ''Infinity'' then True
      else
        (let ip = takeWhile is_digit s; r = dropWhile is_digit s in
         case r of
           [] \<Rightarrow> ip \<noteq> []
         | c # r' \<Rightarrow>
             if c = CHR ''.'' then
               (let fp = takeWhile is_digit r'; e = dropWhile is_digit r' in
                (ip \<noteq> [] \<or> fp \<noteq> []) \<and> is_exponent e)
             else ip \<noteq> [] \<and> is_exponent r))"

definition is_numeric_literal :: "string \<Rightarrow> bool" where
  "is_numeric_literal s =
     (case s of
        [] \<Rightarrow> True
      | c # r \<Rightarrow>
          if c = CHR ''+'' \<or> c = CHR ''-'' then is_unsigned_decimal r
          else if c = CHR ''0'' \<and> r \<noteq> [] \<and> hd r \<in> set ''xX'' then all_in ''0123456789abcdefABCDEF'' (tl r)
          else if c = CHR ''0'' \<and> r \<noteq> [] \<and> hd r \<in> set ''oO'' then all_in ''01234567'' (tl r)
          else if c = CHR ''0'' \<and> r \<noteq> [] \<and> hd r \<in> set ''bB'' then all_in ''01'' (tl r)
          else is_unsigned_decimal s)"

definition not_NaN_Number :: "string \<Rightarrow> bool" where
  "not_NaN_Number s = is_numeric_literal (js_trim s)"

subsection \<open>Errors as values\<close>

definition ebind :: "error + 'a \<Rightarrow> ('a \<Rightarrow> error + 'b) \<Rightarrow> error + 'b" where
  "ebind m f = (case m of Inl e \<Rightarrow> Inl e | Inr x \<Rightarrow> f x)"

subsection \<open>Own properties in enumeration order\<close>

text \<open>
  \<^verbatim>\<open>Object.entries\<close> lists the properties whose names are array indices first, in
  ascending numeric order, and then the other names in insertion order.  On an
  array it lists the elements under their indices, on a string the characters,
  on a number or a boolean nothing, and it throws on \<^verbatim>\<open>null\<close> and
  \<^verbatim>\<open>undefined\<close>.
\<close>

definition digit_val :: "char \<Rightarrow> nat" where
  "digit_val c = length (takeWhile (\<lambda>d. d \<noteq> c) ''0123456789'')"

definition nat_of_digits :: "string \<Rightarrow> nat" where
  "nat_of_digits s = foldl (\<lambda>n c. 10 * n + digit_val c) 0 s"

definition is_array_index :: "string \<Rightarrow> bool" where
  "is_array_index k =
     (k \<noteq> [] \<and> list_all is_digit k \<and> (k = ''0'' \<or> hd k \<noteq> CHR ''0'') \<and>
      nat_of_digits k < 4294967295)"

definition own_entries :: "(string \<times> 'a) list \<Rightarrow> (string \<times> 'a) list" where
  "own_entries kvs =
     sort_key (\<lambda>kv. nat_of_digits (fst kv)) (filter (\<lambda>kv. is_array_index (fst kv)) kvs) @
     filter (\<lambda>kv. \<not> is_array_index (fst kv)) kvs"

fun Object_entries :: "jsval \<Rightarrow> error + (string \<times> jsval) list" where
  "Object_entries (JObj kvs) = Inr (own_entries kvs)"
| "Object_entries (JArr xs) = Inr (zip (map string_of_nat [0..<length xs]) xs)"
| "Object_entries (JStr s) = Inr (zip (map string_of_nat [0..<length s]) (map (\<lambda>c. JStr [c]) s))"
| "Object_entries (JNum n) = Inr []"
| "Object_entries (JBool b) = Inr []"
| "Object_entries JUndefined = Inl (TypeError ''Cannot convert undefined or null to object'')"
| "Object_entries JNull = Inl (TypeError ''Cannot convert undefined or null to object'')"

text \<open>\<^verbatim>\<open>obj[k] = v\<close>: an existing property keeps its place, a new one goes last.\<close>

definition obj_set :: "(string \<times> 'a) list \<Rightarrow> string \<Rightarrow> 'a \<Rightarrow> (string \<times> 'a) list" where
  "obj_set kvs k v = AList.update k v kvs"

subsection \<open>Splitting\<close>

text \<open>\<^verbatim>\<open>s.split(sep)\<close> for a non-empty separator: the pieces between the
  occurrences of \<open>sep\<close>, found from left to right without overlap.\<close>

function js_split_from :: "string \<Rightarrow> string \<Rightarrow> string \<Rightarrow> string list" where
  "js_split_from sep acc [] = [acc]"
| "js_split_from sep acc (c # cs) =
     (if sep \<noteq> [] \<and> prefix sep (c # cs)
      then acc # js_split_from sep [] (drop (length sep - 1) cs)
      else js_split_from sep (acc @ [c]) cs)"
  by pat_completeness auto
termination
  by (relation "measure (\<lambda>(sep, acc, s). length s)") auto

definition js_split :: "string \<Rightarrow> string \<Rightarrow> string list" where
  "js_split sep s = js_split_from sep [] s"

section \<open>Node templates (src/generator/nodeTemplates.ts)\<close>

text \<open>
  Identifiers come from \<^verbatim>\<open>Math.random\<close>.  A run draws them from a supply
  \<open>rnd\<close>: the \<open>n\<close>-th identifier generated in the run is \<open>rnd n\<close>, and every
  function that generates identifiers takes the number drawn so far and
  returns the new count.
\<close>

type_synonym id_supply = "nat \<Rightarrow> string"

subsection \<open>HTTP request\<close>

definition name_value_list :: "(string \<times> jsval) list \<Rightarrow> jsval" where
  "name_value_list es =
     JObj [(''parameters'',
            JArr (map (\<lambda>(name, v). JObj [(''name'', JStr name), (''value'', JStr (js_String v))]) es))]"

definition HttpRequestTemplate_mapParameters :: "params \<Rightarrow> error + params" where
  "HttpRequestTemplate_mapParameters ps =
     (let mapped = [(''method'', js_or (get_prop ps ''method'') (JStr ''GET'')),
                    (''url'', js_or (get_prop ps ''url'') (JStr []))];
          headers = get_prop ps ''headers'';
          body = get_prop ps ''body''
      in ebind
           (if truthy headers \<and> typeof_object headers
            then ebind (Object_entries headers) (\<lambda>es.
                   Inr (obj_set (obj_set mapped ''sendHeaders'' (JBool True))
                          ''headerParameters'' (name_value_list es)))
            else Inr mapped)
           (\<lambda>mapped.
              if truthy body
              then ebind (Object_entries body) (\<lambda>es.
                     Inr (obj_set (obj_set mapped ''sendBody'' (JBool True))
                            ''bodyParameters'' (name_value_list es)))
              else Inr mapped))"

subsection \<open>Gmail\<close>

definition GmailTemplate_mapParameters :: "params \<Rightarrow> params" where
  "GmailTemplate_mapParameters ps =
     foldl (\<lambda>acc (k, v). obj_set acc k v)
       [(''operation'', JStr ''send''),
        (''sendTo'', js_or (get_prop ps ''to'') (JStr [])),
        (''subject'', js_or (get_prop ps ''subject'') (JStr [])),
        (''message'', js_or (get_prop ps ''body'') (JStr [])),
        (''emailType'', js_or (get_prop ps ''bodyType'') (JStr ''text''))]
       (own_entries ps)"

subsection \<open>If: the comparison pattern\<close>

text \<open>
  \<^verbatim>\<open>condition.match(/(.+?)\s*(>=|<=|>|<|==|!=)\s*(.+)/)\<close>, with the backtracking
  order of the regular expression engine written out.  The match starts at the
  leftmost position that admits one.  From a start, the left operand is tried
  shortest first (\<^verbatim>\<open>.+?\<close>); the white space before the operator is tried longest
  first; the operators are tried in the order written; the white space after
  the operator is tried longest first; the right operand is the longest run of
  characters other than line terminators, and must not be empty.
\<close>

fun try_right :: "nat \<Rightarrow> string \<Rightarrow> string option" where
  "try_right 0 r =
     (let right = takeWhile (\<lambda>c. \<not> is_line_terminator c) r
      in if right \<noteq> [] then Some right else None)"
| "try_right (Suc n) r =
     (let right = takeWhile (\<lambda>c. \<not> is_line_terminator c) (drop (Suc n) r)
      in if right \<noteq> [] then Some right else try_right n r)"

fun try_ops :: "string list \<Rightarrow> string \<Rightarrow> (string \<times> string) option" where
  "try_ops [] r = None"
| "try_ops (opr # oprs) r =
     (if prefix opr r
      then (let r' = drop (length opr) r
            in case try_right (length (takeWhile is_space r')) r' of
                 Some right \<Rightarrow> Some (opr, right)
               | None \<Rightarrow> try_ops oprs r)
      else try_ops oprs r)"

definition comparison_operators :: "string list" where
  "comparison_operators = [''>='', ''<='', ''>'', ''<'', ''=='', ''!='']"

fun try_ws :: "nat \<Rightarrow> string \<Rightarrow> (string \<times> string) option" where
  "try_ws 0 r = try_ops comparison_operators r"
| "try_ws (Suc n) r =
     (case try_ops comparison_operators (drop (Suc n) r) of
        Some m \<Rightarrow> Some m
      | None \<Rightarrow> try_ws n r)"

fun try_left :: "string \<Rightarrow> string \<Rightarrow> (string \<times> string \<times> string) option" where
  "try_left left [] = None"
| "try_left left (c # cs) =
     (case try_ws (length (takeWhile is_space (c # cs))) (c # cs) of
        Some (opr, right) \<Rightarrow> Some (left, opr, right)
      | None \<Rightarrow> if is_line_terminator c then None else try_left (left @ [c]) cs)"

fun comparison_match :: "string \<Rightarrow> (string \<times> string \<times> string) option" where
  "comparison_match [] = None"
| "comparison_match (c # cs) =
     (case (if is_line_terminator c then None else try_left [c] cs) of
        Some m \<Rightarrow> Some m
      | None \<Rightarrow> comparison_match cs)"

subsection \<open>If\<close>

definition mapOperator :: "string \<Rightarrow> string" where
  "mapOperator opr =
     (if opr = ''=='' then ''equal''
      else if opr = ''!='' then ''notEqual''
      else if opr = ''>'' then ''larger''
      else if opr = ''<'' then ''smaller''
      else if opr = ''>='' then ''largerEqual''
      else if opr = ''<='' then ''smallerEqual''
      else ''equal'')"

definition getOperatorType :: "string \<Rightarrow> string" where
  "getOperatorType v =
     (if not_NaN_Number v then ''number''
      else if v = ''true'' \<or> v = ''false'' then ''boolean''
      else ''string'')"

definition if_options :: jsval where
  "if_options =
     JObj [(''caseSensitive'', JBool True), (''leftValue'', JStr []),
           (''typeValidation'', JStr ''strict'')]"

definition if_conditions :: "jsval list \<Rightarrow> string \<Rightarrow> params" where
  "if_conditions cs combinator =
     [(''conditions'',
       JObj [(''options'', if_options), (''conditions'', JArr cs),
             (''combinator'', JStr combinator)])]"

text \<open>A condition that is not a string has no \<^verbatim>\<open>match\<close> method: the call throws.\<close>

definition IfTemplate_mapParameters :: "id_supply \<Rightarrow> nat \<Rightarrow> params \<Rightarrow> error + params \<times> nat" where
  "IfTemplate_mapParameters rnd n ps =
     (case js_or (get_prop ps ''condition'') (JStr []) of
        JStr condition \<Rightarrow>
          (case comparison_match condition of
             Some (leftValue, operator, rightValue) \<Rightarrow>
               Inr (if_conditions
                      [JObj [(''id'', JStr (rnd n)),
                             (''leftValue'', JStr (js_trim leftValue)),
                             (''rightValue'', JStr (js_trim rightValue)),
                             (''operator'',
                              JObj [(''type'', JStr (getOperatorType (js_trim rightValue))),
                                    (''operation'', JStr (mapOperator (js_trim operator)))])]]
                      ''and'', Suc n)
           | None \<Rightarrow>
               Inr (if_conditions
                      [JObj [(''id'', JStr (rnd n)),
                             (''leftValue'', JStr condition),
                             (''rightValue'', JStr ''true''),
                             (''operator'',
                              JObj [(''type'', JStr ''boolean''),
                                    (''operation'', JStr ''equal'')])]]
                      ''and'', Suc n))
      | _ \<Rightarrow> Inl (TypeError ''condition.match is not a function''))"

subsection \<open>Schedule trigger\<close>

definition schedule_rule :: "params \<Rightarrow> params" where
  "schedule_rule entry = [(''rule'', JObj [(''interval'', JArr [JObj entry])])]"

definition ScheduleTriggerTemplate_mapParameters :: "params \<Rightarrow> error + params" where
  "ScheduleTriggerTemplate_mapParameters ps =
     (let cron = get_prop ps ''cron'';
          hourly = schedule_rule [(''field'', JStr ''hours''), (''hoursInterval'', JNum 1)]
      in if truthy cron
         then (case cron of
                 JStr c \<Rightarrow>
                   if length (js_split '' '' c) \<ge> 5
                   then Inr (schedule_rule [(''field'', JStr ''cronExpression''),
                                            (''cronExpression'', cron)])
                   else Inr hourly
               | _ \<Rightarrow> Inl (TypeError ''params.cron.split is not a function''))
         else Inr hourly)"

subsection \<open>Code, Set and the manual trigger\<close>

definition CodeTemplate_mapParameters :: "params \<Rightarrow> params" where
  "CodeTemplate_mapParameters ps =
     [(''mode'', JStr ''runOnceForAllItems''),
      (''jsCode'', js_or (get_prop ps ''code'') (JStr ''return items;''))]"

fun getValueType :: "jsval \<Rightarrow> string" where
  "getValueType (JNum n) = ''number''"
| "getValueType (JBool b) = ''boolean''"
| "getValueType (JArr xs) = ''array''"
| "getValueType (JObj kvs) = ''object''"
| "getValueType JNull = ''object''"
| "getValueType v = ''string''"

fun set_assignments :: "id_supply \<Rightarrow> nat \<Rightarrow> (string \<times> jsval) list \<Rightarrow> jsval list \<times> nat" where
  "set_assignments rnd n [] = ([], n)"
| "set_assignments rnd n ((k, v) # kvs) =
     (let (rest, n') = set_assignments rnd (Suc n) kvs
      in (JObj [(''id'', JStr (rnd n)), (''name'', JStr k),
                (''value'', JStr (js_String v)), (''type'', JStr (getValueType v))] # rest, n'))"

definition SetTemplate_mapParameters :: "id_supply \<Rightarrow> nat \<Rightarrow> params \<Rightarrow> error + params \<times> nat" where
  "SetTemplate_mapParameters rnd n ps =
     (let a = get_prop ps ''assignments''
      in ebind (if truthy a \<and> typeof_object a then Object_entries a else Inr [])
           (\<lambda>es. let (assignments, n') = set_assignments rnd n es
                 in Inr ([(''assignments'', JObj [(''assignments'', JArr assignments)]),
                          (''options'', JObj [])], n')))"

definition ManualTriggerTemplate_mapParameters :: "params \<Rightarrow> params" where
  "ManualTriggerTemplate_mapParameters ps = []"

subsection \<open>The registry\<close>

datatype NodeTemplate =
    HttpRequestTemplate
  | GmailTemplate
  | IfTemplate
  | ScheduleTriggerTemplate
  | CodeTemplate
  | SetTemplate
  | ManualTriggerTemplate

definition NODE_TEMPLATES :: "(string \<times> NodeTemplate) list" where
  "NODE_TEMPLATES =
     [(''n8n-nodes-base.httpRequest'', HttpRequestTemplate),
      (''n8n-nodes-base.gmail'', GmailTemplate),
      (''n8n-nodes-base.if'', IfTemplate),
      (''n8n-nodes-base.scheduleTrigger'', ScheduleTriggerTemplate),
      (''n8n-nodes-base.code'', CodeTemplate),
      (''n8n-nodes-base.set'', SetTemplate),
      (''n8n-nodes-base.manualTrigger'', ManualTriggerTemplate)]"

definition getNodeTemplate :: "string \<Rightarrow> NodeTemplate option" where
  "getNodeTemplate nodeType = map_of NODE_TEMPLATES nodeType"

fun mapParameters :: "NodeTemplate \<Rightarrow> id_supply \<Rightarrow> nat \<Rightarrow> params \<Rightarrow> error + params \<times> nat" where
  "mapParameters HttpRequestTemplate rnd n ps =
     ebind (HttpRequestTemplate_mapParameters ps) (\<lambda>m. Inr (m, n))"
| "mapParameters GmailTemplate rnd n ps = Inr (GmailTemplate_mapParameters ps, n)"
| "mapParameters IfTemplate rnd n ps = IfTemplate_mapParameters rnd n ps"
| "mapParameters ScheduleTriggerTemplate rnd n ps =
     ebind (ScheduleTriggerTemplate_mapParameters ps) (\<lambda>m. Inr (m, n))"
| "mapParameters CodeTemplate rnd n ps = Inr (CodeTemplate_mapParameters ps, n)"
| "mapParameters SetTemplate rnd n ps = SetTemplate_mapParameters rnd n ps"
| "mapParameters ManualTriggerTemplate rnd n ps = Inr (ManualTriggerTemplate_mapParameters ps, n)"

section \<open>A richer copy of the template file\<close>

text \<open>
  The repository holds a second, richer copy of the template file.  The parts
  of it that the properties below refer to are translated here: the block of
  its HTTP-request strategy that handles the body, and the compound-condition
  parser of its If strategy.
\<close>

subsection \<open>The body block of the HTTP-request strategy\<close>

text \<open>The body is handled only for the methods \<open>POST\<close>, \<open>PUT\<close> and \<open>PATCH\<close>; the
  block takes the parameters and the map built so far.\<close>

definition variant_body_block :: "params \<Rightarrow> params \<Rightarrow> error + params" where
  "variant_body_block ps mapped =
     (let body = get_prop ps ''body'' in
      if truthy body \<and> get_prop mapped ''method'' \<in> {JStr ''POST'', JStr ''PUT'', JStr ''PATCH''}
      then (let mapped' = obj_set mapped ''sendBody'' (JBool True) in
            case body of
              JStr s \<Rightarrow>
                Inr (obj_set (obj_set (obj_set mapped' ''contentType'' (JStr ''raw''))
                       ''rawContentType'' (JStr ''application/json'')) ''body'' body)
            | _ \<Rightarrow>
                if typeof_object body
                then ebind (Object_entries body) (\<lambda>es.
                       Inr (obj_set (obj_set mapped' ''contentType'' (JStr ''json''))
                              ''jsonParameters'' (name_value_list es)))
                else Inr mapped')
      else Inr mapped)"

subsection \<open>The compound-condition parser of the If strategy\<close>

text \<open>
  \<^verbatim>\<open>isComplexExpression\<close>, \<^verbatim>\<open>parseComplexCondition\<close> and \<^verbatim>\<open>parseConditionPart\<close>.
  The regular expressions are written out as searches: a node reference is a
  run of word characters, \<^verbatim>\<open>.output.\<close> and another run of word characters; the
  \<^verbatim>\<open>includes\<close> form continues with \<^verbatim>\<open>.toLowerCase().includes(\<close>, a quoted
  non-empty search term and \<^verbatim>\<open>)\<close>.  \<^verbatim>\<open>condition.replace(/^\$\{|\}$/g, '')\<close> removes
  a leading \<^verbatim>\<open>${\<close> and a trailing \<^verbatim>\<open>}\<close>.
\<close>

fun contains :: "string \<Rightarrow> string \<Rightarrow> bool" where
  "contains sub [] = (sub = [])"
| "contains sub (c # cs) = (prefix sub (c # cs) \<or> contains sub cs)"

fun contains_template :: "string \<Rightarrow> bool" where
  "contains_template [] = False"
| "contains_template (c # cs) =
     ((prefix ''${'' (c # cs) \<and>
       CHR ''}'' \<in> set (takeWhile (\<lambda>x. \<not> is_line_terminator x) (drop 2 (c # cs)))) \<or>
      contains_template cs)"

definition isComplexExpression :: "string \<Rightarrow> bool" where
  "isComplexExpression condition =
     (contains ''||'' condition \<or> contains ''&&'' condition \<or>
      contains ''.includes('' condition \<or> contains ''.toLowerCase('' condition \<or>
      contains ''.toUpperCase('' condition \<or> contains_template condition \<or>
      contains ''('' condition)"

definition is_word :: "char \<Rightarrow> bool" where
  "is_word c = (c \<in> set ''abcdefghijklmnopqrstuvwxyzABCDEFGHIJKLMNOPQRSTUVWXYZ0123456789_'')"

definition node_ref_at :: "string \<Rightarrow> (string \<times> string \<times> string) option" where
  "node_ref_at s =
     (let nodeName = takeWhile is_word s; r = dropWhile is_word s in
      if nodeName \<noteq> [] \<and> prefix ''.output.'' r then
        (let r' = drop (length ''.output.'') r;
             field = takeWhile is_word r'
         in if field \<noteq> [] then Some (nodeName, field, dropWhile is_word r') else None)
      else None)"

definition includes_at :: "string \<Rightarrow> (string \<times> string \<times> string) option" where
  "includes_at s =
     (case node_ref_at s of
        None \<Rightarrow> None
      | Some (nodeName, field, r) \<Rightarrow>
          if prefix ''.toLowerCase().includes('' r then
            (case drop (length ''.toLowerCase().includes('') r of
               [] \<Rightarrow> None
             | q # r' \<Rightarrow>
                 (let searchTerm = takeWhile (\<lambda>x. \<not> is_quote x) r';
                      r'' = dropWhile (\<lambda>x. \<not> is_quote x) r'
                  in if is_quote q \<and> searchTerm \<noteq> [] \<and> r'' \<noteq> [] \<and> prefix '')'' (tl r'')
                     then Some (nodeName, field, searchTerm) else None))
          else None)"

fun includes_search :: "string \<Rightarrow> (string \<times> string \<times> string) option" where
  "includes_search [] = None"
| "includes_search (c # cs) =
     (case includes_at (c # cs) of Some m \<Rightarrow> Some m | None \<Rightarrow> includes_search cs)"

fun node_ref_search :: "string \<Rightarrow> (string \<times> string) option" where
  "node_ref_search [] = None"
| "node_ref_search (c # cs) =
     (case node_ref_at (c # cs) of
        Some (nodeName, field, r) \<Rightarrow> Some (nodeName, field)
      | None \<Rightarrow> node_ref_search cs)"

definition parseConditionPart :: "string \<Rightarrow> string \<Rightarrow> jsval" where
  "parseConditionPart ident part =
     (case includes_search part of
        Some (nodeName, field, searchTerm) \<Rightarrow>
          JObj [(''id'', JStr ident),
                (''leftValue'', JStr (''{{ $('' @ quoted nodeName @ '').item.json.'' @ field @ '' }}'')),
                (''rightValue'', JStr searchTerm),
                (''operator'', JObj [(''type'', JStr ''string''), (''operation'', JStr ''contains''),
                                     (''name'', JStr ''filter.operator.contains'')])]
      | None \<Rightarrow>
          (case node_ref_search part of
             Some (nodeName, field) \<Rightarrow>
               JObj [(''id'', JStr ident),
                     (''leftValue'', JStr (''{{ $('' @ quoted nodeName @ '').item.json.'' @ field @ '' }}'')),
                     (''rightValue'', JStr []),
                     (''operator'', JObj [(''type'', JStr ''string''), (''operation'', JStr ''exists''),
                                          (''name'', JStr ''filter.operator.exists'')])]
           | None \<Rightarrow>
               JObj [(''id'', JStr ident),
                     (''leftValue'', JStr (''{{ '' @ part @ '' }}'')),
                     (''rightValue'', JBool True),
                     (''operator'', JObj [(''type'', JStr ''boolean''), (''operation'', JStr ''equals''),
                                          (''name'', JStr ''filter.operator.equals'')])]))"

fun parse_parts :: "id_supply \<Rightarrow> nat \<Rightarrow> string list \<Rightarrow> jsval list \<times> nat" where
  "parse_parts rnd n [] = ([], n)"
| "parse_parts rnd n (part # parts) =
     (let (rest, n') = parse_parts rnd (Suc n) parts
      in (parseConditionPart (rnd n) part # rest, n'))"

definition strip_wrapper :: "string \<Rightarrow> string" where
  "strip_wrapper s =
     (let s' = (if prefix ''${'' s then drop 2 s else s)
      in if s' \<noteq> [] \<and> last s' = CHR ''}'' then butlast s' else s')"

definition parseComplexCondition :: "id_supply \<Rightarrow> nat \<Rightarrow> string \<Rightarrow> (string \<times> jsval list) \<times> nat" where
  "parseComplexCondition rnd n condition =
     (let cleanCondition = strip_wrapper condition in
      if contains ''||'' cleanCondition then
        (let (cs, n') = parse_parts rnd n (map js_trim (js_split ''||'' cleanCondition))
         in ((''or'', cs), n'))
      else if contains ''&&'' cleanCondition then
        (let (cs, n') = parse_parts rnd n (map js_trim (js_split ''&&'' cleanCondition))
         in ((''and'', cs), n'))
      else ((''and'', [parseConditionPart (rnd n) cleanCondition]), Suc n))"

section \<open>The abstract syntax tree (src/types/dsl.ts)\<close>

datatype literal = LString string | LNumber int | LBoolean bool

datatype Expression =
    LiteralExpression literal
  | IdentifierExpression string
  | FunctionCallExpression string "Expression list"
  | TemplateExpression string "Expression list"
  | ObjectExpression "(string \<times> Expression) list"
  | ArrayExpression "Expression list"

record ParameterDeclaration =
  param_name :: string
  paramType :: string
  defaultValue :: "Expression option"
  required :: bool
  param_line :: "nat option"
  param_column :: "nat option"

record VariableDeclaration =
  var_name :: string
  var_value :: Expression
  var_line :: "nat option"
  var_column :: "nat option"

record NodeDeclaration =
  node_name :: string
  nodeType :: string
  node_parameters :: "(string \<times> Expression) list"
  node_position :: "(int \<times> int) option"
  node_line :: "nat option"
  node_column :: "nat option"

record ModuleDeclaration =
  mod_name :: string
  modulePath :: string
  mod_parameters :: "(string \<times> Expression) list"
  mod_line :: "nat option"
  mod_column :: "nat option"

datatype node_entry = Node NodeDeclaration | Module ModuleDeclaration

record ConnectionDeclaration =
  source_node :: string
  source_output :: "string option"
  target_node :: string
  target_input :: "string option"
  conn_line :: "nat option"
  conn_column :: "nat option"

record WorkflowDeclaration =
  workflow_name :: string
  parameters :: "ParameterDeclaration list"
  variables :: "VariableDeclaration list"
  nodes :: "node_entry list"
  connections :: "ConnectionDeclaration list"

record Program =
  workflow :: WorkflowDeclaration

fun entry_name :: "node_entry \<Rightarrow> string" where
  "entry_name (Node d) = node_name d"
| "entry_name (Module m) = mod_name m"

fun entry_line :: "node_entry \<Rightarrow> nat option" where
  "entry_line (Node d) = node_line d"
| "entry_line (Module m) = mod_line m"

fun entry_column :: "node_entry \<Rightarrow> nat option" where
  "entry_column (Node d) = node_column d"
| "entry_column (Module m) = mod_column m"

definition DSL_TO_N8N_NODE_TYPES :: "(string \<times> string) list" where
  "DSL_TO_N8N_NODE_TYPES =
     [(''trigger.manual'', ''n8n-nodes-base.manualTrigger''),
      (''trigger.schedule'', ''n8n-nodes-base.scheduleTrigger''),
      (''trigger.webhook'', ''n8n-nodes-base.webhook''),
      (''trigger.form'', ''n8n-nodes-base.formTrigger''),
      (''data.set'', ''n8n-nodes-base.set''),
      (''data.transform'', ''n8n-nodes-base.code''),
      (''flow.if'', ''n8n-nodes-base.if''),
      (''flow.switch'', ''n8n-nodes-base.switch''),
      (''flow.splitOut'', ''n8n-nodes-base.splitOut''),
      (''flow.aggregate'', ''n8n-nodes-base.aggregate''),
      (''http.request'', ''n8n-nodes-base.httpRequest''),
      (''integration.email'', ''n8n-nodes-base.gmail''),
      (''integration.slack'', ''n8n-nodes-base.slack''),
      (''integration.sheets'', ''n8n-nodes-base.googleSheets''),
      (''util.note'', ''n8n-nodes-base.stickyNote''),
      (''util.noop'', ''n8n-nodes-base.noOp'')]"

text \<open>The type versions are decimal fractions; they are kept as rationals.\<close>

definition DEFAULT_TYPE_VERSIONS :: "(string \<times> rat) list" where
  "DEFAULT_TYPE_VERSIONS =
     [(''n8n-nodes-base.manualTrigger'', 1),
      (''n8n-nodes-base.scheduleTrigger'', 12 / 10),
      (''n8n-nodes-base.webhook'', 2),
      (''n8n-nodes-base.formTrigger'', 22 / 10),
      (''n8n-nodes-base.set'', 34 / 10),
      (''n8n-nodes-base.code'', 2),
      (''n8n-nodes-base.if'', 22 / 10),
      (''n8n-nodes-base.switch'', 1),
      (''n8n-nodes-base.httpRequest'', 42 / 10),
      (''n8n-nodes-base.gmail'', 21 / 10),
      (''n8n-nodes-base.googleSheets'', 46 / 10),
      (''n8n-nodes-base.stickyNote'', 1),
      (''n8n-nodes-base.noOp'', 1)]"

section \<open>The generated graph (src/types/n8n.ts)\<close>

record NodeConnection =
  nc_node :: string
  nc_type :: string
  nc_index :: nat

text \<open>An output type maps to an array indexed by output slot; a slot that was never
  assigned is a hole (\<open>None\<close>).\<close>

type_synonym NodeConnections = "(string \<times> NodeConnection list option list) list"
type_synonym WorkflowConnections = "(string \<times> NodeConnections) list"

record N8nNode =
  n8n_id :: string
  n8n_name :: string
  n8n_type :: string
  n8n_position :: "int \<times> int"
  n8n_parameters :: params
  typeVersion :: rat

record N8nWorkflow =
  wf_nodes :: "N8nNode list"
  wf_connections :: WorkflowConnections
  pinData :: params
  meta_instanceId :: string
  wf_name :: string
  active :: bool
  settings_executionOrder :: string

section \<open>The generator (src/generator/generator.ts)\<close>

text \<open>
  What a run reads from outside: the identifiers drawn from \<^verbatim>\<open>Math.random\<close>,
  the renderings of the clock (\<^verbatim>\<open>new Date().toISOString()\<close>; the \<open>t\<close>-th reading
  of the run is \<open>clock w t\<close>) and the process environment.
\<close>

record world =
  rand_id :: id_supply
  clock :: "nat \<Rightarrow> string"
  environment :: "string \<Rightarrow> string option"

record GeneratorOptions =
  instanceId :: "string option"
  autoLayout :: "bool option"
  startPosition :: "(int \<times> int) option"
  spacing :: "int option"

record param_info =
  info_type :: string
  info_defaultValue :: jsval
  info_required :: bool

record Generator =
  opt_instanceId :: "string option"
  opt_autoLayout :: bool
  opt_startPosition :: "int \<times> int"
  opt_spacing :: int
  gen_parameters :: "string \<rightharpoonup> param_info"
  gen_variables :: "string \<rightharpoonup> jsval"
  nodePositions :: "string \<rightharpoonup> int \<times> int"
  currentPosition :: "int \<times> int"

text \<open>The constructor: the defaults, overridden by the options given.\<close>

definition new_Generator :: "GeneratorOptions \<Rightarrow> Generator" where
  "new_Generator opts =
     (let start = (case startPosition opts of Some p \<Rightarrow> p | None \<Rightarrow> (0, 0)) in
      \<lparr> opt_instanceId = instanceId opts,
        opt_autoLayout = (case autoLayout opts of Some b \<Rightarrow> b | None \<Rightarrow> True),
        opt_startPosition = start,
        opt_spacing = (case spacing opts of Some d \<Rightarrow> d | None \<Rightarrow> 200),
        gen_parameters = Map.empty,
        gen_variables = Map.empty,
        nodePositions = Map.empty,
        currentPosition = start \<rparr>)"

subsection \<open>Templates\<close>

text \<open>\<^verbatim>\<open>trimmed.match(/env\(['"]([^'"]+)['"]\)/)?.[1]\<close>: the first place where
  \<^verbatim>\<open>env(\<close>, a quote, a non-empty run of characters other than quotes, a quote
  and \<^verbatim>\<open>)\<close> follow one another; the run is the result.\<close>

fun env_argument :: "string \<Rightarrow> string option" where
  "env_argument [] = None"
| "env_argument (c # cs) =
     (if prefix ''env('' (c # cs) then
        (case drop 4 (c # cs) of
           [] \<Rightarrow> env_argument cs
         | q # r \<Rightarrow>
             (let a = takeWhile (\<lambda>x. \<not> is_quote x) r;
                  r' = dropWhile (\<lambda>x. \<not> is_quote x) r
              in if is_quote q \<and> a \<noteq> [] \<and> r' \<noteq> [] \<and> prefix '')'' (tl r')
                 then Some a else env_argument cs))
      else env_argument cs)"

text \<open>The callback of \<^verbatim>\<open>evaluateTemplate\<close>, applied to the text between
  \<^verbatim>\<open>${\<close> and \<^verbatim>\<open>}\<close>.\<close>

definition resolve_span :: "world \<Rightarrow> Generator \<Rightarrow> string \<Rightarrow> nat \<Rightarrow> string \<times> nat" where
  "resolve_span w g varName t =
     (let trimmed = js_trim varName in
      case gen_variables g trimmed of
        Some v \<Rightarrow> (js_String v, t)
      | None \<Rightarrow>
          (case gen_parameters g trimmed of
             Some p \<Rightarrow> (js_String (js_or (info_defaultValue p) (JStr [])), t)
           | None \<Rightarrow>
               if prefix ''now('' trimmed then (clock w t, Suc t)
               else if prefix ''env('' trimmed then
                 (case environment w (case env_argument trimmed of Some a \<Rightarrow> a | None \<Rightarrow> []) of
                    Some v \<Rightarrow> (v, t)
                  | None \<Rightarrow> ([], t))
               else (''${'' @ varName @ ''}'', t)))"

text \<open>\<^verbatim>\<open>/\$\{([^}]+)\}/g\<close>: a span at the head of the text, with its body and the
  text after its closing brace.\<close>

definition span_at :: "string \<Rightarrow> (string \<times> string) option" where
  "span_at s =
     (if prefix ''${'' s then
        (let body = takeWhile (\<lambda>c. c \<noteq> CHR ''}'') (drop 2 s);
             rest = dropWhile (\<lambda>c. c \<noteq> CHR ''}'') (drop 2 s)
         in if body \<noteq> [] \<and> rest \<noteq> [] then Some (body, tl rest) else None)
      else None)"

lemma span_at_shorter: "span_at s = Some (body, rest) \<Longrightarrow> length rest < length s"
proof -
  assume a: "span_at s = Some (body, rest)"
  from a have p: "prefix ''${'' s"
    by (auto simp: span_at_def split: if_splits)
  from prefix_length_le [OF p] have l: "2 \<le> length s"
    by simp
  have d: "length (dropWhile (\<lambda>c. c \<noteq> CHR ''}'') (drop 2 s)) \<le> length (drop 2 s)"
    by (rule length_dropWhile_le)
  from a have "rest = tl (dropWhile (\<lambda>c. c \<noteq> CHR ''}'') (drop 2 s))"
    by (auto simp: span_at_def Let_def split: if_splits)
  with l d show ?thesis
    by simp
qed

text \<open>\<^verbatim>\<open>template.replace(re, callback)\<close> with the global flag: the spans are found
  from left to right, each is replaced by what the callback returns, and the
  search goes on after the span.\<close>

function replace_spans :: "(string \<Rightarrow> nat \<Rightarrow> string \<times> nat) \<Rightarrow> string \<Rightarrow> nat \<Rightarrow> string \<times> nat" where
  "replace_spans f [] t = ([], t)"
| "replace_spans f (c # cs) t =
     (case span_at (c # cs) of
        Some (body, rest) \<Rightarrow>
          (let (r, t') = f body t; (out, t'') = replace_spans f rest t' in (r @ out, t''))
      | None \<Rightarrow> (let (out, t') = replace_spans f cs t in (c # out, t')))"
  by pat_completeness auto
termination
  by (relation "measure (\<lambda>(f, s, t). length s)") (auto dest: span_at_shorter)

definition evaluateTemplate :: "world \<Rightarrow> Generator \<Rightarrow> string \<Rightarrow> nat \<Rightarrow> string \<times> nat" where
  "evaluateTemplate w g template t = replace_spans (resolve_span w g) template t"

subsection \<open>Expressions\<close>

fun literal_value :: "literal \<Rightarrow> jsval" where
  "literal_value (LString s) = JStr s"
| "literal_value (LNumber n) = JNum n"
| "literal_value (LBoolean b) = JBool b"

text \<open>A loop over a list that threads the count of clock readings and stops at
  the first error.\<close>

fun emapM :: "('a \<Rightarrow> nat \<Rightarrow> error + 'b \<times> nat) \<Rightarrow> 'a list \<Rightarrow> nat \<Rightarrow> error + 'b list \<times> nat" where
  "emapM f [] t = Inr ([], t)"
| "emapM f (x # xs) t =
     ebind (f x t) (\<lambda>r. ebind (emapM f xs (snd r)) (\<lambda>rs. Inr (fst r # fst rs, snd rs)))"

lemma emapM_cong [fundef_cong]:
  "xs = ys \<Longrightarrow> t = t' \<Longrightarrow> (\<And>x s. x \<in> set ys \<Longrightarrow> f x s = g x s) \<Longrightarrow> emapM f xs t = emapM g ys t'"
proof (induction ys arbitrary: xs t t')
  case Nil
  then show ?case by simp
next
  case (Cons y ys)
  have "emapM f ys s = emapM g ys s" for s
    using Cons.IH [of ys s s] Cons.prems(3) by simp
  with Cons.prems show ?case by simp
qed

lemma set_own_entries [simp]: "set (own_entries kvs) = set kvs"
  by (auto simp: own_entries_def)

definition object_of_entries :: "(string \<times> jsval) list \<Rightarrow> params" where
  "object_of_entries kvs = foldl (\<lambda>acc kv. obj_set acc (fst kv) (snd kv)) [] kvs"

fun evaluateExpression :: "world \<Rightarrow> Generator \<Rightarrow> Expression \<Rightarrow> nat \<Rightarrow> error + jsval \<times> nat" where
  "evaluateExpression w g (LiteralExpression l) t = Inr (literal_value l, t)"
| "evaluateExpression w g (IdentifierExpression name) t =
     (case gen_variables g name of
        Some v \<Rightarrow> Inr (v, t)
      | None \<Rightarrow>
          (case gen_parameters g name of
             Some p \<Rightarrow> Inr (info_defaultValue p, t)
           | None \<Rightarrow> Inr (JStr name, t)))"
| "evaluateExpression w g (ObjectExpression properties) t =
     ebind (emapM (\<lambda>ke s. ebind (evaluateExpression w g (snd ke) s)
                              (\<lambda>r. Inr ((fst ke, fst r), snd r)))
              (own_entries properties) t)
       (\<lambda>r. Inr (JObj (object_of_entries (fst r)), snd r))"
| "evaluateExpression w g (ArrayExpression elements) t =
     ebind (emapM (\<lambda>e s. evaluateExpression w g e s) elements t)
       (\<lambda>r. Inr (JArr (fst r), snd r))"
| "evaluateExpression w g (TemplateExpression template es) t =
     (let r = evaluateTemplate w g template t in Inr (JStr (fst r), snd r))"
| "evaluateExpression w g (FunctionCallExpression f args) t = Inl UnsupportedExpressionType"

subsection \<open>Parameters and variables\<close>

fun processParameters ::
  "world \<Rightarrow> Generator \<Rightarrow> ParameterDeclaration list \<Rightarrow> nat \<Rightarrow> error + Generator \<times> nat" where
  "processParameters w g [] t = Inr (g, t)"
| "processParameters w g (p # ps) t =
     ebind (case defaultValue p of
              Some e \<Rightarrow> evaluateExpression w g e t
            | None \<Rightarrow> Inr (JUndefined, t))
       (\<lambda>(v, t').
          processParameters w
            (g\<lparr>gen_parameters := (gen_parameters g)(param_name p \<mapsto>
                  \<lparr>info_type = paramType p, info_defaultValue = v, info_required = required p\<rparr>)\<rparr>)
            ps t')"

fun processVariables ::
  "world \<Rightarrow> Generator \<Rightarrow> VariableDeclaration list \<Rightarrow> nat \<Rightarrow> error + Generator \<times> nat" where
  "processVariables w g [] t = Inr (g, t)"
| "processVariables w g (v # vs) t =
     ebind (evaluateExpression w g (var_value v) t)
       (\<lambda>(x, t').
          processVariables w (g\<lparr>gen_variables := (gen_variables g)(var_name v \<mapsto> x)\<rparr>) vs t')"

subsection \<open>Nodes\<close>

definition mapNodeType :: "string \<Rightarrow> error + string" where
  "mapNodeType dslType =
     (case map_of DSL_TO_N8N_NODE_TYPES dslType of
        Some n8nType \<Rightarrow> Inr n8nType
      | None \<Rightarrow> Inl (UnknownNodeType dslType))"

definition getNodePosition :: "Generator \<Rightarrow> string \<Rightarrow> (int \<times> int) \<times> Generator" where
  "getNodePosition g nodeName =
     (case nodePositions g nodeName of
        Some p \<Rightarrow> (p, g)
      | None \<Rightarrow>
          if opt_autoLayout g then
            (let position = currentPosition g in
             (position,
              g\<lparr>nodePositions := (nodePositions g)(nodeName \<mapsto> position),
                currentPosition := (fst position + opt_spacing g, snd position)\<rparr>))
          else ((0, 0), g))"

definition generateNodeParameters ::
  "world \<Rightarrow> Generator \<Rightarrow> (string \<times> Expression) list \<Rightarrow> string \<Rightarrow> nat \<Rightarrow> nat
     \<Rightarrow> error + params \<times> nat \<times> nat" where
  "generateNodeParameters w g ps n8nNodeType n t =
     ebind (emapM (\<lambda>ke s. ebind (evaluateExpression w g (snd ke) s)
                              (\<lambda>r. Inr ((fst ke, fst r), snd r)))
              (own_entries ps) t)
       (\<lambda>(kvs, t').
          let rawParams = object_of_entries kvs in
          case getNodeTemplate n8nNodeType of
            Some template \<Rightarrow>
              ebind (mapParameters template (rand_id w) n rawParams) (\<lambda>(m, n'). Inr (m, n', t'))
          | None \<Rightarrow> Inr (rawParams, n, t'))"

definition default_type_version :: "string \<Rightarrow> rat" where
  "default_type_version n8nNodeType =
     (case map_of DEFAULT_TYPE_VERSIONS n8nNodeType of
        Some v \<Rightarrow> if v \<noteq> 0 then v else 1
      | None \<Rightarrow> 1)"

fun generateNode ::
  "world \<Rightarrow> Generator \<Rightarrow> node_entry \<Rightarrow> nat \<Rightarrow> nat \<Rightarrow> error + N8nNode \<times> Generator \<times> nat \<times> nat" where
  "generateNode w g (Module m) n t = Inl ModuleResolutionNotImplemented"
| "generateNode w g (Node d) n t =
     ebind (mapNodeType (nodeType d)) (\<lambda>n8nNodeType.
       let (position, g') = getNodePosition g (node_name d) in
       ebind (generateNodeParameters w g' (node_parameters d) n8nNodeType n t) (\<lambda>(ps, n', t').
         Inr (\<lparr> n8n_id = rand_id w n',
                n8n_name = node_name d,
                n8n_type = n8nNodeType,
                n8n_position = position,
                n8n_parameters = ps,
                typeVersion = default_type_version n8nNodeType \<rparr>,
              g', Suc n', t')))"

fun generateNodes ::
  "world \<Rightarrow> Generator \<Rightarrow> node_entry list \<Rightarrow> nat \<Rightarrow> nat
     \<Rightarrow> error + N8nNode list \<times> Generator \<times> nat \<times> nat" where
  "generateNodes w g [] n t = Inr ([], g, n, t)"
| "generateNodes w g (e # es) n t =
     ebind (generateNode w g e n t) (\<lambda>(node, g', n', t').
       ebind (generateNodes w g' es n' t') (\<lambda>(ns, g'', n'', t'').
         Inr (node # ns, g'', n'', t'')))"

subsection \<open>Connections\<close>

definition mapConnectionType :: "string \<Rightarrow> string" where
  "mapConnectionType dslType =
     (if dslType \<in> {''main'', ''output'', ''true'', ''false''} then ''main''
      else if dslType = ''error'' then ''main''
      else ''main'')"

definition mapOutputIndex :: "string \<Rightarrow> nat" where
  "mapOutputIndex dslOutput =
     (if dslOutput \<in> {''main'', ''output'', ''true''} then 0
      else if dslOutput = ''false'' then 1
      else 0)"

text \<open>Reading and writing a slot of an array that may have holes; writing past the
  end leaves holes in between.\<close>

definition array_get :: "'a option list \<Rightarrow> nat \<Rightarrow> 'a option" where
  "array_get xs i = (if i < length xs then xs ! i else None)"

definition array_set :: "'a option list \<Rightarrow> nat \<Rightarrow> 'a \<Rightarrow> 'a option list" where
  "array_set xs i v =
     (if i < length xs then xs[i := Some v]
      else xs @ replicate (i - length xs) None @ [Some v])"

definition source_port :: "ConnectionDeclaration \<Rightarrow> string" where
  "source_port conn =
     (case source_output conn of Some p \<Rightarrow> if p \<noteq> [] then p else ''main'' | None \<Rightarrow> ''main'')"

definition add_connection :: "WorkflowConnections \<Rightarrow> ConnectionDeclaration \<Rightarrow> WorkflowConnections" where
  "add_connection result conn =
     (let sourceName = source_node conn;
          connectionType = mapConnectionType (source_port conn);
          outputIndex = mapOutputIndex (source_port conn);
          inputIndex = 0;
          byType = (case map_of result sourceName of Some m \<Rightarrow> m | None \<Rightarrow> []);
          outputs = (case map_of byType connectionType of Some a \<Rightarrow> a | None \<Rightarrow> []);
          slot = (case array_get outputs outputIndex of Some l \<Rightarrow> l | None \<Rightarrow> []);
          nodeConnection = \<lparr>nc_node = target_node conn, nc_type = connectionType, nc_index = inputIndex\<rparr>
      in obj_set result sourceName
           (obj_set byType connectionType (array_set outputs outputIndex (slot @ [nodeConnection]))))"

fun connect_all :: "string list \<Rightarrow> ConnectionDeclaration list \<Rightarrow> WorkflowConnections
                     \<Rightarrow> error + WorkflowConnections" where
  "connect_all names [] result = Inr result"
| "connect_all names (conn # conns) result =
     (if source_node conn \<notin> set names then Inl (SourceNodeNotFound (source_node conn))
      else if target_node conn \<notin> set names then Inl (TargetNodeNotFound (target_node conn))
      else connect_all names conns (add_connection result conn))"

definition generateConnections :: "ConnectionDeclaration list \<Rightarrow> N8nNode list \<Rightarrow> error + WorkflowConnections" where
  "generateConnections conns ns = connect_all (map n8n_name ns) conns []"

subsection \<open>The workflow\<close>

definition generate :: "world \<Rightarrow> GeneratorOptions \<Rightarrow> Program \<Rightarrow> error + N8nWorkflow" where
  "generate w opts program =
     (let decl = workflow program in
      ebind (processParameters w (new_Generator opts) (parameters decl) 0) (\<lambda>(g1, t1).
      ebind (processVariables w g1 (variables decl) t1) (\<lambda>(g2, t2).
      ebind (generateNodes w g2 (nodes decl) 0 t2) (\<lambda>(ns, g3, n3, t3).
      ebind (generateConnections (connections decl) ns) (\<lambda>conns.
        Inr \<lparr> wf_nodes = ns,
              wf_connections = conns,
              pinData = [],
              meta_instanceId =
                (case opt_instanceId g3 of
                   Some i \<Rightarrow> if i \<noteq> [] then i else rand_id w n3
                 | None \<Rightarrow> rand_id w n3),
              wf_name = workflow_name decl,
              active = False,
              settings_executionOrder = ''v1'' \<rparr>)))))"

section \<open>The validator (src/utils/validation.ts)\<close>

datatype severity = SevError | SevWarning

record ValidationError =
  message :: string
  ve_line :: "nat option"
  ve_column :: "nat option"
  ve_type :: severity

definition addError :: "string \<Rightarrow> nat option \<Rightarrow> nat option \<Rightarrow> ValidationError" where
  "addError msg l c = \<lparr>message = msg, ve_line = l, ve_column = c, ve_type = SevError\<rparr>"

definition addWarning :: "string \<Rightarrow> nat option \<Rightarrow> nat option \<Rightarrow> ValidationError" where
  "addWarning msg l c = \<lparr>message = msg, ve_line = l, ve_column = c, ve_type = SevWarning\<rparr>"

subsection \<open>The pass over the syntax tree\<close>

text \<open>Each loop of \<^verbatim>\<open>validateWorkflow\<close> is a recursion that carries the set of names
  seen so far and returns the diagnostics in the order they are pushed.\<close>

fun check_parameters :: "string set \<Rightarrow> ParameterDeclaration list \<Rightarrow> ValidationError list" where
  "check_parameters paramNames [] = []"
| "check_parameters paramNames (p # ps) =
     (if param_name p \<in> paramNames
      then [addError (''Duplicate parameter name: '' @ param_name p) (param_line p) (param_column p)]
      else []) @
     check_parameters (insert (param_name p) paramNames) ps"

fun check_variables :: "string set \<Rightarrow> string set \<Rightarrow> VariableDeclaration list \<Rightarrow> ValidationError list" where
  "check_variables paramNames varNames [] = []"
| "check_variables paramNames varNames (v # vs) =
     (if var_name v \<in> varNames
      then [addError (''Duplicate variable name: '' @ var_name v) (var_line v) (var_column v)]
      else []) @
     (if var_name v \<in> paramNames
      then [addError (''Variable '' @ quoted (var_name v) @ '' conflicts with parameter name'')
              (var_line v) (var_column v)]
      else []) @
     check_variables paramNames (insert (var_name v) varNames) vs"

fun check_nodes :: "string set \<Rightarrow> node_entry list \<Rightarrow> ValidationError list" where
  "check_nodes nodeNames [] = []"
| "check_nodes nodeNames (e # es) =
     (if entry_name e \<in> nodeNames
      then [addError (''Duplicate node name: '' @ entry_name e) (entry_line e) (entry_column e)]
      else []) @
     check_nodes (insert (entry_name e) nodeNames) es"

fun check_connections :: "string set \<Rightarrow> ConnectionDeclaration list \<Rightarrow> ValidationError list" where
  "check_connections nodeNames [] = []"
| "check_connections nodeNames (c # cs) =
     (if source_node c \<notin> nodeNames
      then [addError (''Connection source node '' @ quoted (source_node c) @ '' does not exist'')
              (conn_line c) (conn_column c)]
      else []) @
     (if target_node c \<notin> nodeNames
      then [addError (''Connection target node '' @ quoted (target_node c) @ '' does not exist'')
              (conn_line c) (conn_column c)]
      else []) @
     check_connections nodeNames cs"

fun check_connected :: "string set \<Rightarrow> node_entry list \<Rightarrow> ValidationError list" where
  "check_connected connectedNodes [] = []"
| "check_connected connectedNodes (e # es) =
     (if entry_name e \<notin> connectedNodes
      then [addWarning (''Node '' @ quoted (entry_name e) @ '' is not connected to any other nodes'')
              (entry_line e) (entry_column e)]
      else []) @
     check_connected connectedNodes es"

definition validateWorkflow :: "WorkflowDeclaration \<Rightarrow> ValidationError list" where
  "validateWorkflow decl =
     check_parameters {} (parameters decl) @
     check_variables (set (map param_name (parameters decl))) {} (variables decl) @
     check_nodes {} (nodes decl) @
     check_connections (set (map entry_name (nodes decl))) (connections decl) @
     check_connected (set (map source_node (connections decl)) \<union> set (map target_node (connections decl)))
       (nodes decl)"

definition validateProgram :: "Program \<Rightarrow> ValidationError list" where
  "validateProgram program = validateWorkflow (workflow program)"

subsection \<open>The pass over the generated graph\<close>

text \<open>\<^verbatim>\<open>validateNode\<close> also checks that the position is a two-element array and that
  the parameters are defined; a value of the node record always passes both.\<close>

definition validateNode :: "N8nNode \<Rightarrow> ValidationError list" where
  "validateNode node =
     (if n8n_id node = [] then [addError ''Node must have an id'' None None] else []) @
     (if n8n_name node = [] then [addError ''Node must have a name'' None None] else []) @
     (if n8n_type node = [] then [addError ''Node must have a type'' None None] else []) @
     (if typeVersion node = 0 then [addError ''Node must have a typeVersion'' None None] else [])"

fun check_graph_nodes :: "string set \<Rightarrow> N8nNode list \<Rightarrow> ValidationError list" where
  "check_graph_nodes nodeNames [] = []"
| "check_graph_nodes nodeNames (node # ns) =
     (if n8n_name node \<in> nodeNames
      then [addError (''Duplicate node name: '' @ n8n_name node) None None]
      else []) @
     validateNode node @
     check_graph_nodes (insert (n8n_name node) nodeNames) ns"

text \<open>Iterating the slots of an output array: a hole yields \<^verbatim>\<open>undefined\<close>, and the
  inner \<^verbatim>\<open>for ... of\<close> over it throws.\<close>

fun check_outputs :: "string set \<Rightarrow> NodeConnection list option list \<Rightarrow> error + ValidationError list" where
  "check_outputs nodeNames [] = Inr []"
| "check_outputs nodeNames (None # outs) = Inl (TypeError ''outputs is not iterable'')"
| "check_outputs nodeNames (Some conns # outs) =
     ebind (check_outputs nodeNames outs) (\<lambda>rest.
       Inr (map (\<lambda>conn. addError (''Connection target node '' @ quoted (nc_node conn) @ '' does not exist'')
                          None None)
              (filter (\<lambda>conn. nc_node conn \<notin> nodeNames) conns) @ rest))"

fun check_types :: "string set \<Rightarrow> NodeConnections \<Rightarrow> error + ValidationError list" where
  "check_types nodeNames [] = Inr []"
| "check_types nodeNames ((connType, outs) # rest) =
     ebind (check_outputs nodeNames outs) (\<lambda>es.
       ebind (check_types nodeNames rest) (\<lambda>es'. Inr (es @ es')))"

fun check_graph_connections :: "string set \<Rightarrow> WorkflowConnections \<Rightarrow> error + ValidationError list" where
  "check_graph_connections nodeNames [] = Inr []"
| "check_graph_connections nodeNames ((sourceName, conns) # rest) =
     ebind (check_types nodeNames (own_entries conns)) (\<lambda>es.
       ebind (check_graph_connections nodeNames rest) (\<lambda>es'.
         Inr ((if sourceName \<notin> nodeNames
               then [addError (''Connection source node '' @ quoted sourceName @ '' does not exist'')
                       None None]
               else []) @ es @ es')))"

definition validateN8nWorkflow :: "N8nWorkflow \<Rightarrow> error + ValidationError list" where
  "validateN8nWorkflow graph =
     ebind (check_graph_connections (set (map n8n_name (wf_nodes graph))) (own_entries (wf_connections graph)))
       (\<lambda>es. Inr ((if wf_nodes graph = [] then [addError ''Workflow must have at least one node'' None None]
                    else []) @
                   check_graph_nodes {} (wf_nodes graph) @ es))"

section \<open>The compiler\<close>

record CompilerOptions = GeneratorOptions +
  validate :: "bool option"
  strict :: "bool option"

record CompilerResult =
  success :: bool
  result_workflow :: "N8nWorkflow option"
  result_ast :: "Program option"
  errors :: "ValidationError list"
  warnings :: "ValidationError list"

text \<open>\<^verbatim>\<open>`${error}`\<close> on what was thrown.\<close>

fun error_string :: "error \<Rightarrow> string" where
  "error_string ModuleResolutionNotImplemented = ''Error: Module resolution not implemented yet''"
| "error_string (UnknownNodeType t) = ''Error: Unknown node type: '' @ t"
| "error_string UnsupportedExpressionType = ''Error: Unsupported expression type: FunctionCallExpression''"
| "error_string (SourceNodeNotFound s) = ''Error: Source node '' @ quoted s @ '' not found''"
| "error_string (TargetNodeNotFound s) = ''Error: Target node '' @ quoted s @ '' not found''"
| "error_string (TypeError m) = ''TypeError: '' @ m"

definition caught :: "error \<Rightarrow> ValidationError list \<Rightarrow> ValidationError list \<Rightarrow> CompilerResult" where
  "caught e errs warns =
     \<lparr> success = False, result_workflow = None, result_ast = None,
       errors = errs @ [addError (''Compilation error: '' @ error_string e) None None],
       warnings = warns \<rparr>"

text \<open>\<^verbatim>\<open>Compiler.compile\<close> from the point where the parser has returned the syntax
  tree: validation of the tree, generation, validation of the graph, and the
  \<^verbatim>\<open>catch\<close> around all of it.\<close>

definition generate_and_check ::
  "world \<Rightarrow> CompilerOptions \<Rightarrow> Program \<Rightarrow> bool \<Rightarrow> ValidationError list \<Rightarrow> ValidationError list
     \<Rightarrow> CompilerResult" where
  "generate_and_check w opts program validating errs warns =
     (case generate w (GeneratorOptions.truncate opts) program of
        Inl e \<Rightarrow> caught e errs warns
      | Inr graph \<Rightarrow>
          if validating then
            (case validateN8nWorkflow graph of
               Inl e \<Rightarrow> caught e errs warns
             | Inr workflowErrors \<Rightarrow>
                 (let errs' = errs @ filter (\<lambda>e. ve_type e = SevError) workflowErrors;
                      warns' = warns @ filter (\<lambda>e. ve_type e \<noteq> SevError) workflowErrors
                  in \<lparr> success = (errs' = []), result_workflow = Some graph, result_ast = Some program,
                       errors = errs', warnings = warns' \<rparr>))
          else \<lparr> success = True, result_workflow = Some graph, result_ast = Some program,
                 errors = errs, warnings = warns \<rparr>)"

definition compile :: "world \<Rightarrow> CompilerOptions \<Rightarrow> Program \<Rightarrow> CompilerResult" where
  "compile w opts program =
     (let validating = (case validate opts of Some b \<Rightarrow> b | None \<Rightarrow> True);
          strictly = (case strict opts of Some b \<Rightarrow> b | None \<Rightarrow> False)
      in if validating then
           (let validationErrors = validateProgram program;
                errs = filter (\<lambda>e. ve_type e = SevError) validationErrors;
                warns = filter (\<lambda>e. ve_type e \<noteq> SevError) validationErrors
            in if errs \<noteq> [] then
                 \<lparr> success = False, result_workflow = None, result_ast = Some program,
                   errors = errs, warnings = warns \<rparr>
               else if strictly \<and> warns \<noteq> [] then
                 \<lparr> success = False, result_workflow = None, result_ast = Some program,
                   errors = warns, warnings = [] \<rparr>
               else generate_and_check w opts program validating errs warns)
         else generate_and_check w opts program validating [] [])"

section \<open>Connections: ports\<close>

text \<open>The entries recorded for a source node under an output type and slot.\<close>

definition entries_at :: "WorkflowConnections \<Rightarrow> string \<Rightarrow> string \<Rightarrow> nat \<Rightarrow> NodeConnection list" where
  "entries_at result sourceName connectionType outputIndex =
     (case map_of result sourceName of
        None \<Rightarrow> []
      | Some byType \<Rightarrow>
          (case map_of byType connectionType of
             None \<Rightarrow> []
           | Some outputs \<Rightarrow> (case array_get outputs outputIndex of None \<Rightarrow> [] | Some l \<Rightarrow> l)))"

definition all_main_index0 :: "WorkflowConnections \<Rightarrow> bool" where
  "all_main_index0 result =
     (\<forall>(sourceName, byType) \<in> set result. \<forall>(connectionType, outputs) \<in> set byType.
        connectionType = ''main'' \<and>
        (\<forall>l. Some l \<in> set outputs \<longrightarrow> (\<forall>e \<in> set l. nc_type e = ''main'' \<and> nc_index e = 0)))"

lemma mapConnectionType_main [simp]: "mapConnectionType p = ''main''"
  by (simp add: mapConnectionType_def)

lemma mapOutputIndex_eq: "mapOutputIndex p = (if p = ''false'' then 1 else 0)"
  by (simp add: mapOutputIndex_def)

lemma obj_set_mem: "(a, b) \<in> set (obj_set al k v) \<Longrightarrow> (a = k \<and> b = v) \<or> (a, b) \<in> set al"
  unfolding obj_set_def by (induction al) (auto split: if_splits)

lemma map_of_obj_set: "map_of (obj_set al k v) = (map_of al)(k \<mapsto> v)"
  by (simp add: obj_set_def update_conv')

lemma array_set_mem: "x \<in> set (array_set xs i v) \<Longrightarrow> x = Some v \<or> x = None \<or> x \<in> set xs"
  using set_update_subset_insert [of xs i "Some v"]
  by (auto simp: array_set_def split: if_splits)

lemma array_get_mem: "array_get xs i = Some l \<Longrightarrow> Some l \<in> set xs"
  by (metis array_get_def nth_mem option.distinct(1))

lemma array_get_Nil [simp]: "array_get [] i = None"
  by (simp add: array_get_def)

lemma array_get_set: "array_get (array_set xs i v) j = (if j = i then Some v else array_get xs j)"
  by (auto simp: array_get_def array_set_def nth_append nth_Cons' split: if_splits)

definition slots_ok :: "NodeConnection list option list \<Rightarrow> bool" where
  "slots_ok outputs = (\<forall>l. Some l \<in> set outputs \<longrightarrow> (\<forall>e \<in> set l. nc_type e = ''main'' \<and> nc_index e = 0))"

definition types_ok :: "NodeConnections \<Rightarrow> bool" where
  "types_ok byType = (\<forall>(connectionType, outputs) \<in> set byType. connectionType = ''main'' \<and> slots_ok outputs)"

lemma all_main_index0_alt: "all_main_index0 r = (\<forall>(s, byType) \<in> set r. types_ok byType)"
  by (simp add: all_main_index0_def types_ok_def slots_ok_def)

lemma slots_ok_set:
  assumes "slots_ok outputs" and "\<forall>e \<in> set l. nc_type e = ''main'' \<and> nc_index e = 0"
  shows "slots_ok (array_set outputs i l)"
  unfolding slots_ok_def
proof (intro allI impI)
  fix l' assume "Some l' \<in> set (array_set outputs i l)"
  then have "l' = l \<or> Some l' \<in> set outputs"
    using array_set_mem [of "Some l'" outputs i l] by auto
  with assms show "\<forall>e \<in> set l'. nc_type e = ''main'' \<and> nc_index e = 0"
    by (auto simp: slots_ok_def)
qed

lemma types_ok_lookup:
  assumes "types_ok byType"
  shows "slots_ok (case map_of byType k of Some a \<Rightarrow> a | None \<Rightarrow> [])"
proof (cases "map_of byType k")
  case None
  then show ?thesis by (simp add: slots_ok_def)
next
  case (Some a)
  from map_of_SomeD [OF Some] assms show ?thesis
    by (auto simp: Some types_ok_def)
qed

lemma slots_ok_get:
  assumes "slots_ok outputs"
  shows "\<forall>e \<in> set (case array_get outputs i of Some l \<Rightarrow> l | None \<Rightarrow> []). nc_type e = ''main'' \<and> nc_index e = 0"
proof (cases "array_get outputs i")
  case None
  then show ?thesis by simp
next
  case (Some l)
  from array_get_mem [OF Some] assms show ?thesis
    by (simp add: Some slots_ok_def)
qed

lemma types_ok_set:
  assumes "types_ok byType" and "slots_ok outputs"
  shows "types_ok (obj_set byType ''main'' outputs)"
  using assms by (auto simp: types_ok_def dest!: obj_set_mem)

lemma add_connection_inv:
  assumes "all_main_index0 r"
  shows "all_main_index0 (add_connection r c)"
proof -
  define byType where "byType = (case map_of r (source_node c) of Some m \<Rightarrow> m | None \<Rightarrow> [])"
  define outputs where "outputs = (case map_of byType ''main'' of Some a \<Rightarrow> a | None \<Rightarrow> [])"
  define slot where "slot = (case array_get outputs (mapOutputIndex (source_port c)) of Some l \<Rightarrow> l | None \<Rightarrow> [])"
  have bt: "types_ok byType"
  proof (cases "map_of r (source_node c)")
    case None
    then show ?thesis by (simp add: byType_def types_ok_def)
  next
    case (Some m)
    from map_of_SomeD [OF Some] assms show ?thesis
      by (auto simp: Some byType_def all_main_index0_alt)
  qed
  have outs: "slots_ok outputs"
    unfolding outputs_def by (rule types_ok_lookup [OF bt])
  have sl: "\<forall>e \<in> set slot. nc_type e = ''main'' \<and> nc_index e = 0"
    unfolding slot_def by (rule slots_ok_get [OF outs])
  have new: "types_ok (obj_set byType ''main''
               (array_set outputs (mapOutputIndex (source_port c))
                  (slot @ [\<lparr>nc_node = target_node c, nc_type = ''main'', nc_index = 0\<rparr>])))"
    by (rule types_ok_set [OF bt slots_ok_set [OF outs]]) (use sl in auto)
  have eq: "add_connection r c = obj_set r (source_node c)
              (obj_set byType ''main''
                 (array_set outputs (mapOutputIndex (source_port c))
                    (slot @ [\<lparr>nc_node = target_node c, nc_type = ''main'', nc_index = 0\<rparr>])))"
    by (simp add: add_connection_def Let_def byType_def outputs_def slot_def)
  show ?thesis
    unfolding eq all_main_index0_alt
    using assms new by (auto simp: all_main_index0_alt dest!: obj_set_mem)
qed

lemma entries_at_add:
  "entries_at (add_connection r c) s ty i =
     entries_at r s ty i @
     (if s = source_node c \<and> ty = ''main'' \<and> i = mapOutputIndex (source_port c)
      then [\<lparr>nc_node = target_node c, nc_type = ''main'', nc_index = 0\<rparr>] else [])"
  by (auto simp: entries_at_def add_connection_def Let_def map_of_obj_set array_get_set
           split: option.splits)

lemma connect_all_inv:
  "all_main_index0 r \<Longrightarrow> connect_all names conns r = Inr r' \<Longrightarrow> all_main_index0 r'"
  by (induction conns arbitrary: r) (auto split: if_splits intro: add_connection_inv)

lemma connect_all_target_input:
  "connect_all names (map (\<lambda>c. c\<lparr>target_input := p c\<rparr>) conns) r = connect_all names conns r"
  by (induction conns arbitrary: r) (simp_all add: add_connection_def source_port_def)

lemma connect_all_entries:
  "connect_all names conns r = Inr r' \<Longrightarrow>
     entries_at r' s ''main'' i =
       entries_at r s ''main'' i @
       map (\<lambda>c. \<lparr>nc_node = target_node c, nc_type = ''main'', nc_index = 0\<rparr>)
         (filter (\<lambda>c. source_node c = s \<and> (if source_port c = ''false'' then 1 else 0) = i) conns)"
  by (induction conns arbitrary: r) (auto split: if_splits simp: entries_at_add mapOutputIndex_eq)

definition example_nodes :: "N8nNode list" where
  "example_nodes =
     map (\<lambda>name. \<lparr>n8n_id = ''id-'' @ name, n8n_name = name, n8n_type = ''n8n-nodes-base.noOp'',
                    n8n_position = (0, 0), n8n_parameters = [], typeVersion = 1\<rparr>)
       [''a'', ''b'', ''c'']"

definition example_connections :: "ConnectionDeclaration list" where
  "example_connections =
     [\<lparr>source_node = ''a'', source_output = Some ''false'', target_node = ''b'',
        target_input = Some ''second'', conn_line = None, conn_column = None\<rparr>,
      \<lparr>source_node = ''a'', source_output = Some ''error'', target_node = ''c'',
        target_input = None, conn_line = None, conn_column = None\<rparr>]"

definition example_result :: WorkflowConnections where
  "example_result =
     [(''a'', [(''main'',
                [Some [\<lparr>nc_node = ''c'', nc_type = ''main'', nc_index = 0\<rparr>],
                 Some [\<lparr>nc_node = ''b'', nc_type = ''main'', nc_index = 0\<rparr>]])])]"

lemma example_generateConnections:
  "generateConnections example_connections example_nodes = Inr example_result"
  by (simp add: generateConnections_def example_connections_def example_nodes_def
        example_result_def add_connection_def source_port_def mapOutputIndex_def
        array_get_def array_set_def obj_set_def Let_def)



section \<open>Auto-layout\<close>

lemma ebind_Inr_iff: "ebind m f = Inr y \<longleftrightarrow> (\<exists>x. m = Inr x \<and> f x = Inr y)"
  by (cases m) (simp_all add: ebind_def)

lemma ebind_Inl [simp]: "ebind (Inl e) f = Inl e"
  by (simp add: ebind_def)

lemma ebind_Inr [simp]: "ebind (Inr x) f = f x"
  by (simp add: ebind_def)

definition same_layout :: "Generator \<Rightarrow> Generator \<Rightarrow> bool" where
  "same_layout g g' =
     (nodePositions g' = nodePositions g \<and> currentPosition g' = currentPosition g \<and>
      opt_autoLayout g' = opt_autoLayout g \<and> opt_spacing g' = opt_spacing g \<and>
      opt_instanceId g' = opt_instanceId g \<and> opt_startPosition g' = opt_startPosition g)"

lemma processParameters_layout:
  "processParameters w g ps t = Inr (g', t') \<Longrightarrow> same_layout g g'"
proof (induction ps arbitrary: g t)
  case Nil
  then show ?case by (simp add: same_layout_def)
next
  case (Cons p ps)
  from Cons.prems obtain v s where
    "processParameters w
       (g\<lparr>gen_parameters := (gen_parameters g)(param_name p \<mapsto>
             \<lparr>info_type = paramType p, info_defaultValue = v, info_required = required p\<rparr>)\<rparr>)
       ps s = Inr (g', t')"
    by (auto simp: ebind_Inr_iff)
  from Cons.IH [OF this] show ?case
    by (simp add: same_layout_def)
qed

lemma processVariables_layout:
  "processVariables w g vs t = Inr (g', t') \<Longrightarrow> same_layout g g'"
proof (induction vs arbitrary: g t)
  case Nil
  then show ?case by (simp add: same_layout_def)
next
  case (Cons v vs)
  from Cons.prems obtain x s where
    "processVariables w (g\<lparr>gen_variables := (gen_variables g)(var_name v \<mapsto> x)\<rparr>) vs s = Inr (g', t')"
    by (auto simp: ebind_Inr_iff)
  from Cons.IH [OF this] show ?case
    by (simp add: same_layout_def)
qed

lemma generateNode_position:
  assumes "generateNode w g e n t = Inr (node, g', n', t')"
    and "opt_autoLayout g" and "nodePositions g (entry_name e) = None"
  shows "n8n_position node = currentPosition g \<and> n8n_name node = entry_name e \<and>
         currentPosition g' = (fst (currentPosition g) + opt_spacing g, snd (currentPosition g)) \<and>
         nodePositions g' = (nodePositions g)(entry_name e \<mapsto> currentPosition g) \<and>
         opt_autoLayout g' \<and> opt_spacing g' = opt_spacing g"
proof (cases e)
  case (Module m)
  with assms show ?thesis by simp
next
  case (Node d)
  with assms show ?thesis
    by (auto simp: ebind_Inr_iff getNodePosition_def Let_def split: prod.splits)
qed

lemma generateNodes_positions:
  assumes "generateNodes w g es n t = Inr (ns, g', n', t')"
    and "opt_autoLayout g"
    and "\<forall>e \<in> set es. nodePositions g (entry_name e) = None"
    and "distinct (map entry_name es)"
  shows "length ns = length es \<and>
         (\<forall>k < length es.
            n8n_position (ns ! k) = (fst (currentPosition g) + opt_spacing g * int k, snd (currentPosition g)) \<and>
            n8n_name (ns ! k) = entry_name (es ! k))"
  using assms
proof (induction es arbitrary: g n t ns)
  case Nil
  then show ?case by simp
next
  case (Cons e es)
  from Cons.prems(1) obtain node g1 n1 t1 ns1 where
    hd: "generateNode w g e n t = Inr (node, g1, n1, t1)" and
    tl: "generateNodes w g1 es n1 t1 = Inr (ns1, g', n', t')" and
    ns: "ns = node # ns1"
    by (auto simp: ebind_Inr_iff)
  from Cons.prems have none: "nodePositions g (entry_name e) = None" by simp
  note p = generateNode_position [OF hd Cons.prems(2) none]
  have free: "\<forall>e' \<in> set es. nodePositions g1 (entry_name e') = None"
    using p Cons.prems(3,4) by (auto simp: image_iff)
  have d: "distinct (map entry_name es)"
    using Cons.prems(4) by simp
  from p have a: "opt_autoLayout g1" by simp
  note ih = Cons.IH [OF tl a free d]
  show ?case
  proof (intro conjI allI impI)
    show "length ns = length (e # es)" using ih ns by simp
  next
    fix k assume k: "k < length (e # es)"
    show "n8n_position (ns ! k) = (fst (currentPosition g) + opt_spacing g * int k, snd (currentPosition g))"
    proof (cases k)
      case 0
      with p ns show ?thesis by simp
    next
      case (Suc j)
      with k ih p ns show ?thesis by (simp add: algebra_simps)
    qed
    show "n8n_name (ns ! k) = entry_name ((e # es) ! k)"
    proof (cases k)
      case 0
      with p ns show ?thesis by simp
    next
      case (Suc j)
      with k ih ns show ?thesis by simp
    qed
  qed
qed

definition example_world :: world where
  "example_world =
     \<lparr>rand_id = (\<lambda>n. ''id'' @ string_of_nat n), clock = (\<lambda>t. ''2024-01-01T00:00:00.000Z''),
      environment = Map.empty\<rparr>"

definition default_options :: GeneratorOptions where
  "default_options = \<lparr>instanceId = None, autoLayout = None, startPosition = None, spacing = None\<rparr>"

definition simple_node :: "string \<Rightarrow> string \<Rightarrow> (string \<times> Expression) list \<Rightarrow> node_entry" where
  "simple_node name dslType ps =
     Node \<lparr>node_name = name, nodeType = dslType, node_parameters = ps, node_position = None,
           node_line = None, node_column = None\<rparr>"

definition three_nodes :: Program where
  "three_nodes =
     \<lparr>workflow =
        \<lparr>workflow_name = ''three'', parameters = [], variables = [],
         nodes = [simple_node ''first'' ''trigger.manual'' [],
                  simple_node ''second'' ''data.transform'' [(''code'', LiteralExpression (LString ''return items;''))],
                  simple_node ''third'' ''util.noop'' []],
         connections = []\<rparr>\<rparr>"

lemmas generator_defs =
  generate_def new_Generator_def generateNodeParameters_def mapNodeType_def DSL_TO_N8N_NODE_TYPES_def
  getNodePosition_def getNodeTemplate_def NODE_TEMPLATES_def own_entries_def is_array_index_def
  object_of_entries_def obj_set_def generateConnections_def default_type_version_def
  DEFAULT_TYPE_VERSIONS_def Let_def

lemma three_nodes_generate:
  "\<exists>graph. generate example_world default_options three_nodes = Inr graph"
  by (simp add: generator_defs three_nodes_def simple_node_def default_options_def example_world_def
        CodeTemplate_mapParameters_def ManualTriggerTemplate_mapParameters_def js_or_def get_prop_def)

text \<open>
  C9.  With auto-layout enabled (or left at its default), start position
  \<open>[0, 0]\<close> and spacing 200 (or the defaults), and node entries with pairwise
  distinct names, a successful generation returns one node per entry, in
  declaration order, and places the \<open>k\<close>-th node (counting from 0) at
  \<open>x = 200 * k\<close>, \<open>y = 0\<close>: three nodes are placed at \<open>[0, 0]\<close>, \<open>[200, 0]\<close>,
  \<open>[400, 0]\<close>.  The position written in a declaration is never read.
\<close>

theorem auto_layout_positions:
  assumes "generate w opts program = Inr graph"
    and "autoLayout opts = None \<or> autoLayout opts = Some True"
    and "startPosition opts = None \<or> startPosition opts = Some (0, 0)"
    and "spacing opts = None \<or> spacing opts = Some 200"
    and "distinct (map entry_name (nodes (workflow program)))"
  shows "length (wf_nodes graph) = length (nodes (workflow program)) \<and>
         (\<forall>k < length (nodes (workflow program)).
            n8n_name (wf_nodes graph ! k) = entry_name (nodes (workflow program) ! k) \<and>
            n8n_position (wf_nodes graph ! k) = (200 * int k, 0))"
proof -
  define g0 where "g0 = new_Generator opts"
  from assms(1) obtain g1 t1 g2 t2 ns g3 n3 t3 where
    ps: "processParameters w g0 (parameters (workflow program)) 0 = Inr (g1, t1)" and
    vs: "processVariables w g1 (variables (workflow program)) t1 = Inr (g2, t2)" and
    gn: "generateNodes w g2 (nodes (workflow program)) 0 t2 = Inr (ns, g3, n3, t3)" and
    gr: "wf_nodes graph = ns"
    by (auto simp: generate_def Let_def ebind_Inr_iff g0_def)
  have l0: "opt_autoLayout g0 \<and> opt_spacing g0 = 200 \<and> currentPosition g0 = (0, 0) \<and>
            nodePositions g0 = Map.empty"
    using assms(2-4) by (auto simp: g0_def new_Generator_def Let_def)
  from processParameters_layout [OF ps] processVariables_layout [OF vs] l0
  have l2: "opt_autoLayout g2 \<and> opt_spacing g2 = 200 \<and> currentPosition g2 = (0, 0) \<and>
            nodePositions g2 = Map.empty"
    by (simp add: same_layout_def)
  then have a: "opt_autoLayout g2"
    and free: "\<forall>e \<in> set (nodes (workflow program)). nodePositions g2 (entry_name e) = None"
    by simp_all
  from generateNodes_positions [OF gn a free assms(5)] l2 gr show ?thesis
    by simp
qed

theorem auto_layout_positions_witness:
  "\<exists>graph. generate example_world default_options three_nodes = Inr graph \<and>
     map n8n_position (wf_nodes graph) = [(0, 0), (200, 0), (400, 0)]"
proof -
  from three_nodes_generate obtain graph where
    g: "generate example_world default_options three_nodes = Inr graph" ..
  have "length (wf_nodes graph) = length (nodes (workflow three_nodes)) \<and>
        (\<forall>k < length (nodes (workflow three_nodes)).
           n8n_name (wf_nodes graph ! k) = entry_name (nodes (workflow three_nodes) ! k) \<and>
           n8n_position (wf_nodes graph ! k) = (200 * int k, 0))"
    by (rule auto_layout_positions [OF g])
       (simp_all add: default_options_def three_nodes_def simple_node_def)
  then have len: "length (wf_nodes graph) = 3"
    and pos: "\<forall>k < 3. n8n_position (wf_nodes graph ! k) = (200 * int k, 0)"
    by (simp_all add: three_nodes_def)
  from len obtain a b c where abc: "wf_nodes graph = [a, b, c]"
    by (auto simp: length_Suc_conv eval_nat_numeral)
  from pos have "n8n_position (wf_nodes graph ! 0) = (0, 0)"
    and "n8n_position (wf_nodes graph ! 1) = (200, 0)"
    and "n8n_position (wf_nodes graph ! 2) = (400, 0)"
    by simp_all
  then have "map n8n_position (wf_nodes graph) = [(0, 0), (200, 0), (400, 0)]"
    by (simp add: abc)
  with g show ?thesis
    by (intro exI [of _ graph] conjI)
qed

section \<open>Module entries\<close>

lemma generateNodes_module:
  "Module m \<in> set es \<Longrightarrow> \<exists>e. generateNodes w g es n t = Inl e"
proof (induction es arbitrary: g n t)
  case Nil
  then show ?case by simp
next
  case (Cons a es)
  show ?case
  proof (cases "generateNode w g a n t")
    case (Inl e)
    then show ?thesis by simp
  next
    case (Inr r)
    obtain node g' n' t' where r: "r = (node, g', n', t')"
      by (cases r) auto
    from Inr r have "a \<noteq> Module m"
      by auto
    with Cons.prems have "Module m \<in> set es"
      by simp
    from Cons.IH [OF this] obtain e where "generateNodes w g' es n' t' = Inl e"
      by blast
    with Inr r show ?thesis
      by simp
  qed
qed

lemma generateNodes_reaches_module:
  "generateNodes w g pre n t = Inr r \<Longrightarrow>
     generateNodes w g (pre @ Module m # post) n t = Inl ModuleResolutionNotImplemented"
proof (induction pre arbitrary: g n t r)
  case Nil
  then show ?case by simp
next
  case (Cons a pre)
  from Cons.prems obtain node g' n' t' r' where
    a: "generateNode w g a n t = Inr (node, g', n', t')" and
    rest: "generateNodes w g' pre n' t' = Inr r'"
    by (auto simp: ebind_Inr_iff)
  from Cons.IH [OF rest] a show ?case
    by simp
qed

definition example_module :: ModuleDeclaration where
  "example_module =
     \<lparr>mod_name = ''shared'', modulePath = ''./shared.n8n'', mod_parameters = [],
      mod_line = None, mod_column = None\<rparr>"

definition module_program :: Program where
  "module_program =
     \<lparr>workflow =
        \<lparr>workflow_name = ''with-module'', parameters = [], variables = [],
         nodes = [simple_node ''first'' ''trigger.manual'' [], Module example_module],
         connections = []\<rparr>\<rparr>"



section \<open>Dangling connections\<close>

lemma check_parameters_distinct:
  "distinct (map param_name ps) \<Longrightarrow> set (map param_name ps) \<inter> seen = {} \<Longrightarrow>
     check_parameters seen ps = []"
  by (induction ps arbitrary: seen) auto

lemma check_variables_distinct:
  "distinct (map var_name vs) \<Longrightarrow> set (map var_name vs) \<inter> seen = {} \<Longrightarrow>
   set (map var_name vs) \<inter> paramNames = {} \<Longrightarrow>
     check_variables paramNames seen vs = []"
  by (induction vs arbitrary: seen) auto

lemma check_nodes_distinct:
  "distinct (map entry_name es) \<Longrightarrow> set (map entry_name es) \<inter> seen = {} \<Longrightarrow>
     check_nodes seen es = []"
  by (induction es arbitrary: seen) auto

lemma check_connected_warnings:
  "filter (\<lambda>e. ve_type e = SevError) (check_connected linked es) = []"
  by (induction es) (auto simp: addWarning_def)

lemma generateNode_name:
  assumes "generateNode w g e n t = Inr (node, g', n', t')"
  shows "n8n_name node = entry_name e"
proof (cases e)
  case (Module m)
  with assms show ?thesis by simp
next
  case (Node d)
  obtain p g1 where "getNodePosition g (node_name d) = (p, g1)"
    by (cases "getNodePosition g (node_name d)") auto
  with assms Node show ?thesis
    by (auto simp: ebind_Inr_iff)
qed

lemma generateNodes_names:
  "generateNodes w g es n t = Inr (ns, g', n', t') \<Longrightarrow> map n8n_name ns = map entry_name es"
proof (induction es arbitrary: g n t ns)
  case Nil
  then show ?case by simp
next
  case (Cons e es)
  from Cons.prems obtain node g1 n1 t1 ns1 where
    h: "generateNode w g e n t = Inr (node, g1, n1, t1)" and
    r: "generateNodes w g1 es n1 t1 = Inr (ns1, g', n', t')" and
    ns: "ns = node # ns1"
    by (auto simp: ebind_Inr_iff)
  from generateNode_name [OF h] Cons.IH [OF r] ns show ?case
    by simp
qed

text \<open>The part of \<open>generate\<close> that comes before the connections.\<close>

definition node_stage ::
  "world \<Rightarrow> GeneratorOptions \<Rightarrow> Program \<Rightarrow> error + N8nNode list \<times> Generator \<times> nat \<times> nat" where
  "node_stage w opts program =
     ebind (processParameters w (new_Generator opts) (parameters (workflow program)) 0) (\<lambda>(g1, t1).
     ebind (processVariables w g1 (variables (workflow program)) t1) (\<lambda>(g2, t2).
       generateNodes w g2 (nodes (workflow program)) 0 t2))"

lemma node_stage_names:
  "node_stage w opts program = Inr (ns, g, n, t) \<Longrightarrow>
     map n8n_name ns = map entry_name (nodes (workflow program))"
  by (auto simp: node_stage_def ebind_Inr_iff dest: generateNodes_names)

lemma generate_node_stage:
  "node_stage w opts program = Inl e \<Longrightarrow> generate w opts program = Inl e"
  by (auto simp: node_stage_def generate_def Let_def ebind_def split: sum.splits prod.splits)

lemma generate_dangling:
  assumes "node_stage w opts program = Inr r"
    and "connections (workflow program) = c # cs"
    and "source_node c \<notin> set (map entry_name (nodes (workflow program)))"
  shows "generate w opts program = Inl (SourceNodeNotFound (source_node c))"
proof -
  obtain ns g n t where r: "r = (ns, g, n, t)" by (cases r) auto
  from node_stage_names [OF assms(1) [unfolded r]] assms(3)
  have "source_node c \<notin> set (map n8n_name ns)" by simp
  then have "generateConnections (c # cs) ns = Inl (SourceNodeNotFound (source_node c))"
    by (simp add: generateConnections_def)
  with assms(1,2) r show ?thesis
    by (auto simp: node_stage_def generate_def Let_def ebind_Inr_iff)
qed


lemma generate_fails_dangling:
  assumes "connections (workflow program) = c # cs"
    and "source_node c \<notin> set (map entry_name (nodes (workflow program)))"
  shows "\<exists>e. generate w opts program = Inl e"
proof (cases "node_stage w opts program")
  case (Inl e)
  from generate_node_stage [OF this] show ?thesis by blast
next
  case (Inr r)
  from generate_dangling [OF this assms] show ?thesis by blast
qed

definition dangling_errors :: "ConnectionDeclaration \<Rightarrow> ValidationError list" where
  "dangling_errors c =
     [addError (''Connection source node '' @ quoted (source_node c) @ '' does not exist'')
        (conn_line c) (conn_column c),
      addError (''Connection target node '' @ quoted (target_node c) @ '' does not exist'')
        (conn_line c) (conn_column c)]"

definition default_compiler_options :: CompilerOptions where
  "default_compiler_options =
     \<lparr>instanceId = None, autoLayout = None, startPosition = None, spacing = None,
      validate = None, strict = None\<rparr>"

definition dangling_connection :: ConnectionDeclaration where
  "dangling_connection =
     \<lparr>source_node = ''missing'', source_output = Some ''main'', target_node = ''alsoMissing'',
      target_input = Some ''main'', conn_line = None, conn_column = None\<rparr>"

definition dangling_program :: Program where
  "dangling_program =
     \<lparr>workflow =
        \<lparr>workflow_name = ''dangling'', parameters = [], variables = [],
         nodes = [simple_node ''first'' ''trigger.manual'' []],
         connections = [dangling_connection]\<rparr>\<rparr>"

text \<open>
  C7.  Take a workflow whose only connection names a source and a target that
  are both undeclared, and that has no duplicate or colliding names.  Then the
  validation of the syntax tree reports exactly two errors, the first naming
  the source and the second naming the target.  Compilation never succeeds and
  never returns a graph: with validation on (the default) it returns those two
  errors and generation is not run; generation itself, whenever it is run,
  returns an error, and that error is the unknown-source error as soon as the
  parameters, the variables and the nodes are processed without error.
\<close>

theorem dangling_connection_never_succeeds:
  assumes "connections (workflow program) = [c]"
    and "source_node c \<notin> set (map entry_name (nodes (workflow program)))"
    and "target_node c \<notin> set (map entry_name (nodes (workflow program)))"
    and "distinct (map param_name (parameters (workflow program)))"
    and "distinct (map var_name (variables (workflow program)))"
    and "set (map var_name (variables (workflow program))) \<inter>
         set (map param_name (parameters (workflow program))) = {}"
    and "distinct (map entry_name (nodes (workflow program)))"
  shows "filter (\<lambda>e. ve_type e = SevError) (validateProgram program) = dangling_errors c \<and>
         (validate opts \<noteq> Some False \<longrightarrow>
            compile w opts program =
              \<lparr>success = False, result_workflow = None, result_ast = Some program,
               errors = dangling_errors c,
               warnings = filter (\<lambda>e. ve_type e \<noteq> SevError) (validateProgram program)\<rparr>) \<and>
         (\<exists>e. generate w (GeneratorOptions.truncate opts) program = Inl e) \<and>
         (\<forall>r. node_stage w (GeneratorOptions.truncate opts) program = Inr r \<longrightarrow>
              generate w (GeneratorOptions.truncate opts) program = Inl (SourceNodeNotFound (source_node c))) \<and>
         \<not> success (compile w opts program) \<and>
         result_workflow (compile w opts program) = None"
proof -
  have errs: "filter (\<lambda>e. ve_type e = SevError) (validateProgram program) = dangling_errors c"
    using assms
    by (simp add: validateProgram_def validateWorkflow_def check_parameters_distinct
          check_variables_distinct check_nodes_distinct check_connected_warnings
          dangling_errors_def addError_def)
  have ne: "dangling_errors c \<noteq> []"
    by (simp add: dangling_errors_def)
  have validating: "validate opts \<noteq> Some False \<Longrightarrow>
      compile w opts program =
        \<lparr>success = False, result_workflow = None, result_ast = Some program,
         errors = dangling_errors c,
         warnings = filter (\<lambda>e. ve_type e \<noteq> SevError) (validateProgram program)\<rparr>"
    using errs ne by (cases "validate opts") (auto simp: compile_def Let_def)
  from generate_fails_dangling [OF assms(1,2)] obtain e where
    e: "generate w (GeneratorOptions.truncate opts) program = Inl e"
    by blast
  have blind: "validate opts = Some False \<Longrightarrow>
      compile w opts program = caught e [] []"
    using e by (simp add: compile_def generate_and_check_def)
  have fail: "\<not> success (compile w opts program) \<and> result_workflow (compile w opts program) = None"
  proof (cases "validate opts = Some False")
    case True
    from blind [OF this] show ?thesis by (simp add: caught_def)
  next
    case False
    from validating [OF this] show ?thesis by simp
  qed
  show ?thesis
    using errs validating e fail generate_dangling [OF _ assms(1,2)]
    by blast
qed

theorem dangling_connection_never_succeeds_witness:
  "filter (\<lambda>e. ve_type e = SevError) (validateProgram dangling_program) =
     [addError ''Connection source node 'missing' does not exist'' None None,
      addError ''Connection target node 'alsoMissing' does not exist'' None None] \<and>
   \<not> success (compile example_world default_compiler_options dangling_program) \<and>
   \<not> success (compile example_world (default_compiler_options\<lparr>validate := Some False\<rparr>) dangling_program)"
proof -
  have c: "connections (workflow dangling_program) = [dangling_connection]"
    by (simp add: dangling_program_def)
  have d: "dangling_errors dangling_connection =
     [addError ''Connection source node 'missing' does not exist'' None None,
      addError ''Connection target node 'alsoMissing' does not exist'' None None]"
    by (simp add: dangling_errors_def dangling_connection_def quoted_def)
  have r: "filter (\<lambda>e. ve_type e = SevError) (validateProgram dangling_program) =
             dangling_errors dangling_connection \<and>
           \<not> success (compile example_world opts dangling_program)" for opts
    using dangling_connection_never_succeeds [OF c, of opts example_world]
    by (simp add: dangling_program_def dangling_connection_def simple_node_def)
  from r [of default_compiler_options]
       r [of "default_compiler_options\<lparr>validate := Some False\<rparr>"] d
  show ?thesis by simp
qed

section \<open>Parameter mapping of the registered templates\<close>

lemmas regex_defs = comparison_operators_def is_space_def is_line_terminator_def

lemma comparison_match_gte:
  "comparison_match ''${x} >= 10'' = Some (''${x}'', ''>='', ''10'')"
  by (simp add: regex_defs)

lemma getOperatorType_10: "getOperatorType ''10'' = ''number''"
  by (simp add: getOperatorType_def not_NaN_Number_def js_trim_def is_space_def
        is_numeric_literal_def is_unsigned_decimal_def is_digit_def is_exponent_def)

text \<open>
  C4.  For a \<open>flow.if\<close> node, the registry selects the If template, and for
  every parameter map whose \<open>condition\<close> is the string \<^verbatim>\<open>${x} >= 10\<close> the mapped
  parameters hold exactly one condition entry, with left value \<^verbatim>\<open>${x}\<close>, right
  value \<open>10\<close>, operator operation \<open>largerEqual\<close> (the name this template gives
  to \<^verbatim>\<open>>=\<close>) and operator type \<open>number\<close>.
\<close>

theorem if_condition_gte_number:
  assumes "get_prop ps ''condition'' = JStr ''${x} >= 10''"
  shows "mapNodeType ''flow.if'' = Inr ''n8n-nodes-base.if'' \<and>
         getNodeTemplate ''n8n-nodes-base.if'' = Some IfTemplate \<and>
         mapParameters IfTemplate rnd n ps =
           Inr ([(''conditions'',
                  JObj [(''options'', if_options),
                        (''conditions'',
                         JArr [JObj [(''id'', JStr (rnd n)),
                                     (''leftValue'', JStr ''${x}''),
                                     (''rightValue'', JStr ''10''),
                                     (''operator'',
                                      JObj [(''type'', JStr ''number''),
                                            (''operation'', JStr ''largerEqual'')])]]),
                        (''combinator'', JStr ''and'')])],
                Suc n)"
  using assms comparison_match_gte getOperatorType_10
  by (simp add: mapNodeType_def DSL_TO_N8N_NODE_TYPES_def getNodeTemplate_def NODE_TEMPLATES_def
        IfTemplate_mapParameters_def js_or_def if_conditions_def mapOperator_def js_trim_def
        is_space_def)

theorem if_condition_gte_number_witness:
  "get_prop [(''condition'', JStr ''${x} >= 10'')] ''condition'' = JStr ''${x} >= 10'' \<and>
   (\<exists>c. mapParameters IfTemplate (rand_id example_world) 0 [(''condition'', JStr ''${x} >= 10'')] =
           Inr ([(''conditions'',
                  JObj [(''options'', if_options), (''conditions'', JArr [c]),
                        (''combinator'', JStr ''and'')])], 1) \<and>
        get_prop (case c of JObj kvs \<Rightarrow> kvs | _ \<Rightarrow> []) ''operator'' =
          JObj [(''type'', JStr ''number''), (''operation'', JStr ''largerEqual'')])"
proof -
  have h: "get_prop [(''condition'', JStr ''${x} >= 10'')] ''condition'' = JStr ''${x} >= 10''"
    by (simp add: get_prop_def)
  from if_condition_gte_number [OF h, of "rand_id example_world" 0] h show ?thesis
    by (simp add: get_prop_def)
qed

text \<open>The richer copy of the template file treats a condition with a \<^verbatim>\<open>${...}\<close> span
  as a complex expression: its compound parser turns the same condition into a
  single condition with operation \<open>equals\<close> of type \<open>boolean\<close>.\<close>

lemma variant_template_condition_is_complex:
  "isComplexExpression ''${x} >= 10'' \<and>
   parseComplexCondition rnd n ''${x} >= 10'' =
     ((''and'',
       [JObj [(''id'', JStr (rnd n)),
              (''leftValue'', JStr ''{{ x} >= 10 }}''),
              (''rightValue'', JBool True),
              (''operator'', JObj [(''type'', JStr ''boolean''), (''operation'', JStr ''equals''),
                                   (''name'', JStr ''filter.operator.equals'')])]]),
      Suc n)"
  by (simp add: isComplexExpression_def parseComplexCondition_def strip_wrapper_def
        parseConditionPart_def includes_at_def node_ref_at_def is_word_def is_line_terminator_def)

text \<open>
  C2.  The strategies of the registry are not total.  With a numeric
  \<open>condition\<close> the If strategy calls \<^verbatim>\<open>match\<close> on a number, and with a numeric
  \<open>cron\<close> the schedule strategy calls \<^verbatim>\<open>split\<close> on a number: both throw a
  \<^verbatim>\<open>TypeError\<close> instead of returning a parameter map.
\<close>

theorem mapParameters_throws_on_numbers:
  "getNodeTemplate ''n8n-nodes-base.if'' = Some IfTemplate \<and>
   mapParameters IfTemplate rnd n [(''condition'', JNum 5)] =
     Inl (TypeError ''condition.match is not a function'') \<and>
   getNodeTemplate ''n8n-nodes-base.scheduleTrigger'' = Some ScheduleTriggerTemplate \<and>
   mapParameters ScheduleTriggerTemplate rnd n [(''cron'', JNum 5)] =
     Inl (TypeError ''params.cron.split is not a function'')"
  by (simp add: getNodeTemplate_def NODE_TEMPLATES_def IfTemplate_mapParameters_def
        ScheduleTriggerTemplate_mapParameters_def js_or_def get_prop_def Let_def)

text \<open>The strategies do return a parameter map on every input in which
  \<open>condition\<close> and \<open>cron\<close> are strings or falsy.\<close>

lemma Object_entries_truthy: "truthy v \<Longrightarrow> \<exists>es. Object_entries v = Inr es"
  by (cases v) simp_all

fun is_string_or_falsy :: "jsval \<Rightarrow> bool" where
  "is_string_or_falsy (JStr s) = True"
| "is_string_or_falsy v = (\<not> truthy v)"

lemma mapParameters_total_on_strings:
  assumes "template = IfTemplate \<longrightarrow> is_string_or_falsy (get_prop ps ''condition'')"
    and "template = ScheduleTriggerTemplate \<longrightarrow> is_string_or_falsy (get_prop ps ''cron'')"
  shows "\<exists>r. mapParameters template rnd n ps = Inr r"
proof (cases template)
  case HttpRequestTemplate
  have h: "truthy (get_prop ps ''headers'') \<Longrightarrow> \<exists>es. Object_entries (get_prop ps ''headers'') = Inr es"
    by (rule Object_entries_truthy)
  have b: "truthy (get_prop ps ''body'') \<Longrightarrow> \<exists>es. Object_entries (get_prop ps ''body'') = Inr es"
    by (rule Object_entries_truthy)
  from h b HttpRequestTemplate show ?thesis
    by (auto simp: HttpRequestTemplate_mapParameters_def Let_def)
next
  case GmailTemplate
  then show ?thesis by simp
next
  case IfTemplate
  with assms(1) show ?thesis
    by (cases "get_prop ps ''condition''")
       (auto simp: IfTemplate_mapParameters_def js_or_def split: option.splits)
next
  case ScheduleTriggerTemplate
  with assms(2) show ?thesis
    by (cases "get_prop ps ''cron''")
       (auto simp: ScheduleTriggerTemplate_mapParameters_def Let_def)
next
  case CodeTemplate
  then show ?thesis by simp
next
  case SetTemplate
  have "truthy (get_prop ps ''assignments'') \<Longrightarrow> \<exists>es. Object_entries (get_prop ps ''assignments'') = Inr es"
    by (rule Object_entries_truthy)
  with SetTemplate show ?thesis
    by (auto simp: SetTemplate_mapParameters_def Let_def split: prod.splits)
next
  case ManualTriggerTemplate
  then show ?thesis by simp
qed

text \<open>
  C5.  The HTTP-request strategy of the registry emits the body fields for
  method \<open>GET\<close>: with a non-empty body map, the mapped parameters contain
  \<open>sendBody\<close> and the body parameter list.
\<close>

theorem http_get_emits_body:
  "mapParameters HttpRequestTemplate rnd n
     [(''method'', JStr ''GET''), (''body'', JObj [(''a'', JStr ''1'')])] =
   Inr ([(''method'', JStr ''GET''), (''url'', JStr []), (''sendBody'', JBool True),
         (''bodyParameters'',
          JObj [(''parameters'', JArr [JObj [(''name'', JStr ''a''), (''value'', JStr ''1'')]])])],
        n)"
  by (simp add: HttpRequestTemplate_mapParameters_def Let_def js_or_def get_prop_def obj_set_def
        own_entries_def is_array_index_def is_digit_def name_value_list_def)

text \<open>It does so for every method: the strategy never looks at the method when it
  handles the body.\<close>

lemma http_body_any_method:
  assumes "truthy (get_prop ps ''body'')"
    and "HttpRequestTemplate_mapParameters ps = Inr mapped"
  shows "get_prop mapped ''sendBody'' = JBool True \<and> map_of mapped ''bodyParameters'' \<noteq> None"
proof -
  from assms obtain m es where
    "mapped = obj_set (obj_set m ''sendBody'' (JBool True)) ''bodyParameters'' (name_value_list es)"
    by (auto simp: HttpRequestTemplate_mapParameters_def Let_def ebind_Inr_iff split: if_splits)
  then show ?thesis
    by (simp add: get_prop_def map_of_obj_set)
qed

text \<open>The richer copy of the template file adds no body field for \<open>GET\<close>.\<close>

lemma variant_body_block_get:
  "get_prop mapped ''method'' = JStr ''GET'' \<Longrightarrow> variant_body_block ps mapped = Inr mapped"
  by (simp add: variant_body_block_def)

text \<open>
  C1.  The If strategy of the registry does not split a condition at \<^verbatim>\<open>||\<close>:
  for the condition \<^verbatim>\<open>a == 1 || b == 2\<close> it returns a single condition, whose
  right value is the rest of the text, under the combinator \<open>and\<close>.
\<close>

lemma comparison_match_or:
  "comparison_match ''a == 1 || b == 2'' = Some (''a'', ''=='', ''1 || b == 2'')"
  by (simp add: regex_defs)

theorem if_or_condition_is_single_and:
  "mapParameters IfTemplate rnd n [(''condition'', JStr ''a == 1 || b == 2'')] =
     Inr ([(''conditions'',
            JObj [(''options'', if_options),
                  (''conditions'',
                   JArr [JObj [(''id'', JStr (rnd n)),
                               (''leftValue'', JStr ''a''),
                               (''rightValue'', JStr ''1 || b == 2''),
                               (''operator'',
                                JObj [(''type'', JStr ''string''),
                                      (''operation'', JStr ''equal'')])]]),
                  (''combinator'', JStr ''and'')])],
          Suc n)"
  using comparison_match_or
  by (simp add: IfTemplate_mapParameters_def js_or_def get_prop_def if_conditions_def
        mapOperator_def js_trim_def is_space_def getOperatorType_def not_NaN_Number_def
        is_numeric_literal_def is_unsigned_decimal_def is_digit_def is_exponent_def)

text \<open>Whenever it returns, the If strategy of the registry returns exactly one
  condition under the combinator \<open>and\<close>.\<close>

lemma if_always_single_and:
  assumes "IfTemplate_mapParameters rnd n ps = Inr (mapped, n')"
  shows "\<exists>c. mapped = if_conditions [c] ''and''"
  using assms
  by (auto simp: IfTemplate_mapParameters_def split: jsval.splits option.splits)

text \<open>The compound parser of the richer copy: for a condition that contains
  \<^verbatim>\<open>||\<close> it returns the combinator \<open>or\<close> and one condition for each piece of
  \<^verbatim>\<open>condition.split('||')\<close>.\<close>

lemma length_parse_parts:
  "parse_parts rnd n parts = (cs, n') \<Longrightarrow> length cs = length parts"
  by (induction parts arbitrary: n cs n') (auto split: prod.splits)

lemma length_split_acc:
  "length (js_split_from sep acc s) = length (js_split_from sep [] s)"
proof (induction s arbitrary: acc rule: length_induct)
  case (1 s)
  show ?case
  proof (cases s)
    case Nil
    then show ?thesis by simp
  next
    case (Cons c cs)
    show ?thesis
    proof (cases "sep \<noteq> [] \<and> prefix sep (c # cs)")
      case True
      with Cons show ?thesis by simp
    next
      case False
      have "length (js_split_from sep (acc @ [c]) cs) = length (js_split_from sep [] cs)"
        using 1 [rule_format, of cs "acc @ [c]"] Cons by simp
      moreover have "length (js_split_from sep [c] cs) = length (js_split_from sep [] cs)"
        using 1 [rule_format, of cs "[c]"] Cons by simp
      ultimately show ?thesis
        using False Cons by auto
    qed
  qed
qed

lemma prefix_or_snoc: "prefix ''||'' (r @ ''}'') = prefix ''||'' r"
proof (cases r)
  case Nil
  then show ?thesis by simp
next
  case (Cons c cs)
  then show ?thesis by (cases cs) simp_all
qed

lemma split_count_snoc:
  "length (js_split_from ''||'' acc (r @ ''}'')) = length (js_split_from ''||'' acc r)"
proof (induction r arbitrary: acc rule: length_induct)
  case (1 r)
  show ?case
  proof (cases r)
    case Nil
    then show ?thesis by simp
  next
    case (Cons c cs)
    show ?thesis
    proof (cases "prefix ''||'' (c # cs)")
      case True
      then obtain cs' where cs: "cs = CHR ''|'' # cs'"
        by (cases cs) auto
      have "length (js_split_from ''||'' [] (cs' @ ''}'')) = length (js_split_from ''||'' [] cs')"
        using 1 Cons cs by simp
      with True Cons cs show ?thesis
        by simp
    next
      case False
      then have nf: "prefix ''||'' (c # cs @ ''}'') = False"
        using prefix_or_snoc [of "c # cs"] by simp
      have l: "js_split_from ''||'' acc (c # cs @ ''}'') = js_split_from ''||'' (acc @ [c]) (cs @ ''}'')"
        by (simp only: js_split_from.simps nf simp_thms if_False)
      from False have nf': "prefix ''||'' (c # cs) = False"
        by simp
      have r: "js_split_from ''||'' acc (c # cs) = js_split_from ''||'' (acc @ [c]) cs"
        by (simp only: js_split_from.simps nf' simp_thms if_False)
      have "length (js_split_from ''||'' (acc @ [c]) (cs @ ''}'')) =
            length (js_split_from ''||'' (acc @ [c]) cs)"
        using 1 Cons by simp
      with l r Cons show ?thesis
        by simp
    qed
  qed
qed

lemma contains_or_snoc: "contains ''||'' (r @ ''}'') = contains ''||'' r"
proof (induction r)
  case Nil
  then show ?case by simp
next
  case (Cons c cs)
  have "prefix ''||'' ((c # cs) @ ''}'') = prefix ''||'' (c # cs)"
    by (rule prefix_or_snoc)
  with Cons show ?case by simp
qed

lemma strip_wrapper_cases:
  obtains "strip_wrapper s = s"
  | r where "s = ''${'' @ r" and "strip_wrapper s = r"
  | r where "s = r @ ''}''" and "strip_wrapper s = r"
  | r where "s = ''${'' @ r @ ''}''" and "strip_wrapper s = r"
proof (cases "prefix ''${'' s")
  case True
  then obtain r where r: "s = ''${'' @ r"
    by (auto simp: prefix_def)
  show ?thesis
  proof (cases "r \<noteq> [] \<and> last r = CHR ''}''")
    case True
    then obtain r' where "r = r' @ ''}''"
      by (metis append_butlast_last_id)
    with r show ?thesis
      using that(4) [of r'] by (simp add: strip_wrapper_def)
  next
    case False
    with r show ?thesis
      using that(2) [of r] by (auto simp: strip_wrapper_def)
  qed
next
  case False
  show ?thesis
  proof (cases "s \<noteq> [] \<and> last s = CHR ''}''")
    case True
    then obtain r where "s = r @ ''}''"
      by (metis append_butlast_last_id)
    with False show ?thesis
      using that(3) [of r] by (simp add: strip_wrapper_def)
  next
    case f: False
    with False show ?thesis
      using that(1) by (auto simp: strip_wrapper_def)
  qed
qed

lemma split_count_strip:
  "length (js_split ''||'' (strip_wrapper s)) = length (js_split ''||'' s)"
proof (cases s rule: strip_wrapper_cases)
  case 1
  then show ?thesis by simp
next
  case (2 r)
  then show ?thesis
    using length_split_acc [of "''||''" "''${''" r] by (simp add: js_split_def)
next
  case (3 r)
  then show ?thesis by (simp add: js_split_def split_count_snoc)
next
  case (4 r)
  then show ?thesis
    using length_split_acc [of "''||''" "''${''" "r @ ''}''"]
    by (simp add: js_split_def split_count_snoc)
qed

lemma contains_or_strip: "contains ''||'' (strip_wrapper s) = contains ''||'' s"
proof (cases s rule: strip_wrapper_cases)
  case 1
  then show ?thesis by simp
next
  case (2 r)
  then show ?thesis by simp
next
  case (3 r)
  then show ?thesis by (simp add: contains_or_snoc)
next
  case (4 r)
  then show ?thesis by (simp add: contains_or_snoc)
qed

lemma variant_or_condition_count:
  assumes "contains ''||'' condition"
  shows "isComplexExpression condition \<and>
         (\<exists>cs n'. parseComplexCondition rnd n condition = ((''or'', cs), n') \<and>
                   length cs = length (js_split ''||'' condition))"
proof -
  obtain cs n' where p:
    "parse_parts rnd n (map js_trim (js_split ''||'' (strip_wrapper condition))) = (cs, n')"
    by (cases "parse_parts rnd n (map js_trim (js_split ''||'' (strip_wrapper condition)))") auto
  from length_parse_parts [OF p] have "length cs = length (js_split ''||'' condition)"
    by (simp add: split_count_strip)
  with assms p show ?thesis
    by (simp add: isComplexExpression_def parseComplexCondition_def contains_or_strip)
qed

section \<open>String templates\<close>

text \<open>A template seen as a sequence of pieces: the spans \<^verbatim>\<open>${...}\<close> found from left
  to right, and the characters between them.\<close>

datatype piece = Literal char | Span string

fun piece_text :: "piece \<Rightarrow> string" where
  "piece_text (Literal c) = [c]"
| "piece_text (Span body) = ''${'' @ body @ ''}''"

function template_pieces :: "string \<Rightarrow> piece list" where
  "template_pieces [] = []"
| "template_pieces (c # cs) =
     (case span_at (c # cs) of
        Some (body, rest) \<Rightarrow> Span body # template_pieces rest
      | None \<Rightarrow> Literal c # template_pieces cs)"
  by pat_completeness auto
termination
  by (relation "measure length") (auto dest: span_at_shorter)

fun substitute :: "(string \<Rightarrow> nat \<Rightarrow> string \<times> nat) \<Rightarrow> piece list \<Rightarrow> nat \<Rightarrow> string \<times> nat" where
  "substitute f [] t = ([], t)"
| "substitute f (Literal c # ps) t = (let (out, t') = substitute f ps t in (c # out, t'))"
| "substitute f (Span body # ps) t =
     (let (r, t') = f body t; (out, t'') = substitute f ps t' in (r @ out, t''))"

text \<open>The resolution of a span as the specification words it: a variable by its
  stringified value, else a parameter by its resolved default, else the
  built-ins \<^verbatim>\<open>now(\<close> and \<^verbatim>\<open>env(\<close>, else the span itself.\<close>

definition environment_value :: "world \<Rightarrow> string \<Rightarrow> string" where
  "environment_value w inner =
     (case environment w (case env_argument inner of Some a \<Rightarrow> a | None \<Rightarrow> []) of
        Some v \<Rightarrow> v | None \<Rightarrow> [])"

definition claimed_resolve :: "world \<Rightarrow> Generator \<Rightarrow> string \<Rightarrow> nat \<Rightarrow> string \<times> nat" where
  "claimed_resolve w g inner t =
     (let trimmed = js_trim inner in
      case gen_variables g trimmed of
        Some v \<Rightarrow> (js_String v, t)
      | None \<Rightarrow>
          (case gen_parameters g trimmed of
             Some p \<Rightarrow> (js_String (info_defaultValue p), t)
           | None \<Rightarrow>
               if prefix ''now('' trimmed then (clock w t, Suc t)
               else if prefix ''env('' trimmed then (environment_value w trimmed, t)
               else (''${'' @ inner @ ''}'', t)))"

text \<open>The same resolution, with a parameter that has no default resolved to the
  empty string.\<close>

definition amended_resolve :: "world \<Rightarrow> Generator \<Rightarrow> string \<Rightarrow> nat \<Rightarrow> string \<times> nat" where
  "amended_resolve w g inner t =
     (let trimmed = js_trim inner in
      case gen_variables g trimmed of
        Some v \<Rightarrow> (js_String v, t)
      | None \<Rightarrow>
          (case gen_parameters g trimmed of
             Some p \<Rightarrow>
               (if info_defaultValue p = JUndefined then [] else js_String (info_defaultValue p), t)
           | None \<Rightarrow>
               if prefix ''now('' trimmed then (clock w t, Suc t)
               else if prefix ''env('' trimmed then (environment_value w trimmed, t)
               else (''${'' @ inner @ ''}'', t)))"

text \<open>No parameter has a default that is falsy without being the empty string or
  absent (such as \<open>0\<close> or \<open>false\<close>).\<close>

definition plain_defaults :: "Generator \<Rightarrow> bool" where
  "plain_defaults g =
     (\<forall>name p. gen_parameters g name = Some p \<longrightarrow>
        truthy (info_defaultValue p) \<or> info_defaultValue p = JUndefined \<or> info_defaultValue p = JStr [])"

lemma span_at_text:
  "span_at s = Some (body, rest) \<Longrightarrow> s = ''${'' @ body @ ''}'' @ rest \<and> body \<noteq> [] \<and> CHR ''}'' \<notin> set body"
proof -
  assume a: "span_at s = Some (body, rest)"
  let ?r = "drop 2 s"
  from a have p: "prefix ''${'' s"
    and b: "body = takeWhile (\<lambda>c. c \<noteq> CHR ''}'') ?r"
    and r: "rest = tl (dropWhile (\<lambda>c. c \<noteq> CHR ''}'') ?r)"
    and ne: "body \<noteq> []" "dropWhile (\<lambda>c. c \<noteq> CHR ''}'') ?r \<noteq> []"
    by (auto simp: span_at_def Let_def split: if_splits)
  from p have s: "s = ''${'' @ ?r"
    by (auto simp: prefix_def)
  from ne(2) have h: "hd (dropWhile (\<lambda>c. c \<noteq> CHR ''}'') ?r) = CHR ''}''"
    using hd_dropWhile [of "\<lambda>c. c \<noteq> CHR ''}''" ?r] by simp
  have "?r = body @ dropWhile (\<lambda>c. c \<noteq> CHR ''}'') ?r"
    by (simp add: b)
  also have "dropWhile (\<lambda>c. c \<noteq> CHR ''}'') ?r = CHR ''}'' # rest"
    using ne(2) h r by (cases "dropWhile (\<lambda>c. c \<noteq> CHR ''}'') ?r") auto
  finally have "?r = body @ ''}'' @ rest"
    by simp
  moreover have "CHR ''}'' \<notin> set body"
    unfolding b using set_takeWhileD by fastforce
  ultimately show ?thesis
    using s ne(1) by (metis append.assoc)
qed

lemma pieces_text: "concat (map piece_text (template_pieces s)) = s"
proof (induction s rule: template_pieces.induct)
  case 1
  then show ?case by simp
next
  case (2 c cs)
  show ?case
  proof (cases "span_at (c # cs)")
    case None
    with 2 show ?thesis by simp
  next
    case (Some m)
    obtain body rest where m: "m = (body, rest)" by (cases m) auto
    from span_at_text [OF Some [unfolded m]] 2(2) [OF Some m [symmetric]] Some m
    show ?thesis
      by simp
  qed
qed

lemma pieces_spans: "Span b \<in> set (template_pieces s) \<Longrightarrow> b \<noteq> [] \<and> CHR ''}'' \<notin> set b"
proof (induction s rule: template_pieces.induct)
  case 1
  then show ?case by simp
next
  case (2 c cs)
  show ?case
  proof (cases "span_at (c # cs)")
    case None
    with 2 show ?thesis by simp
  next
    case (Some m)
    obtain body rest where m: "m = (body, rest)" by (cases m) auto
    from span_at_text [OF Some [unfolded m]] 2(2) [OF Some m [symmetric]] 2(3) Some m
    show ?thesis
      by auto
  qed
qed

lemma replace_spans_pieces: "replace_spans f s t = substitute f (template_pieces s) t"
proof (induction f s t rule: replace_spans.induct)
  case (1 f t)
  then show ?case by simp
next
  case (2 f c cs t)
  show ?case
  proof (cases "span_at (c # cs)")
    case None
    with 2(1) show ?thesis by simp
  next
    case (Some m)
    obtain body rest where m: "m = (body, rest)" by (cases m) auto
    obtain r t' where f: "f body t = (r, t')" by (cases "f body t") auto
    from 2(2) [OF Some m [symmetric] f [symmetric]] Some m f show ?thesis
      by simp
  qed
qed

lemma resolve_span_amended:
  assumes "plain_defaults g"
  shows "resolve_span w g inner t = amended_resolve w g inner t"
proof (cases "gen_parameters g (js_trim inner)")
  case None
  then show ?thesis
    by (simp add: resolve_span_def amended_resolve_def environment_value_def Let_def
          split: option.splits)
next
  case (Some p)
  with assms have "truthy (info_defaultValue p) \<or> info_defaultValue p = JUndefined \<or>
                   info_defaultValue p = JStr []"
    by (simp add: plain_defaults_def)
  with Some show ?thesis
    by (auto simp: resolve_span_def amended_resolve_def js_or_def Let_def split: option.splits)
qed


definition zero_parameter :: ParameterDeclaration where
  "zero_parameter =
     \<lparr>param_name = ''n'', paramType = ''number'',
      defaultValue = Some (LiteralExpression (LNumber 0)), required = False,
      param_line = None, param_column = None\<rparr>"

definition zero_generator :: Generator where
  "zero_generator =
     (new_Generator default_options)
       \<lparr>gen_parameters :=
          [''n'' \<mapsto> \<lparr>info_type = ''number'', info_defaultValue = JNum 0, info_required = False\<rparr>]\<rparr>"

definition template_world :: world where
  "template_world =
     \<lparr>rand_id = (\<lambda>n. ''id'' @ string_of_nat n), clock = (\<lambda>t. ''2024-01-01T00:00:00.000Z''),
      environment = [''HOME'' \<mapsto> ''/home/u'']\<rparr>"

definition template_generator :: Generator where
  "template_generator =
     (new_Generator default_options)
       \<lparr>gen_parameters :=
          [''apiUrl'' \<mapsto> \<lparr>info_type = ''string'', info_defaultValue = JStr ''https://api'',
                           info_required = False\<rparr>,
           ''token'' \<mapsto> \<lparr>info_type = ''string'', info_defaultValue = JUndefined,
                          info_required = True\<rparr>],
        gen_variables := [''limit'' \<mapsto> JNum 5]\<rparr>"

lemmas template_defs =
  span_at_def resolve_span_def claimed_resolve_def amended_resolve_def environment_value_def
  js_trim_def is_space_def js_or_def is_quote_def string_of_int_def Let_def




section \<open>Two runs on the same source\<close>

text \<open>Two runs read the same clock and the same environment; the identifiers they
  draw may differ.\<close>

definition same_outside :: "world \<Rightarrow> world \<Rightarrow> bool" where
  "same_outside w w' = (clock w = clock w' \<and> environment w = environment w')"

text \<open>Erasing the generated identifiers of a graph: the instance id, the node
  ids, and inside the node parameters the ids of the condition entries of an If
  node and of the assignment entries of a Set node.  Nothing else is touched.\<close>

fun blank_id :: "jsval \<Rightarrow> jsval" where
  "blank_id (JObj kvs) = JObj (map (\<lambda>kv. if fst kv = ''id'' then (fst kv, JStr []) else kv) kvs)"
| "blank_id v = v"

definition at_key :: "string \<Rightarrow> (jsval \<Rightarrow> jsval) \<Rightarrow> params \<Rightarrow> params" where
  "at_key k f kvs = map (\<lambda>kv. if fst kv = k then (fst kv, f (snd kv)) else kv) kvs"

fun in_object :: "(params \<Rightarrow> params) \<Rightarrow> jsval \<Rightarrow> jsval" where
  "in_object f (JObj kvs) = JObj (f kvs)"
| "in_object f v = v"

fun each_element :: "(jsval \<Rightarrow> jsval) \<Rightarrow> jsval \<Rightarrow> jsval" where
  "each_element f (JArr xs) = JArr (map f xs)"
| "each_element f v = v"

definition erase_parameters :: "string \<Rightarrow> params \<Rightarrow> params" where
  "erase_parameters n8nNodeType ps =
     (if n8nNodeType = ''n8n-nodes-base.if''
      then at_key ''conditions'' (in_object (at_key ''conditions'' (each_element blank_id))) ps
      else if n8nNodeType = ''n8n-nodes-base.set''
      then at_key ''assignments'' (in_object (at_key ''assignments'' (each_element blank_id))) ps
      else ps)"

definition erase_node :: "N8nNode \<Rightarrow> N8nNode" where
  "erase_node node =
     node\<lparr>n8n_id := [], n8n_parameters := erase_parameters (n8n_type node) (n8n_parameters node)\<rparr>"

definition erase_graph :: "N8nWorkflow \<Rightarrow> N8nWorkflow" where
  "erase_graph graph = graph\<lparr>wf_nodes := map erase_node (wf_nodes graph), meta_instanceId := []\<rparr>"

lemma resolve_span_outside:
  assumes "same_outside w w'"
  shows "resolve_span w g = resolve_span w' g"
proof -
  from assms have c: "clock w = clock w'" and e: "environment w = environment w'"
    by (simp_all add: same_outside_def)
  show ?thesis
    by (intro ext) (simp only: resolve_span_def c e)
qed

lemma evaluateExpression_outside:
  "same_outside w w' \<Longrightarrow> evaluateExpression w g e t = evaluateExpression w' g e t"
proof (induction w g e t rule: evaluateExpression.induct)
  case (3 w g properties t)
  have "emapM (\<lambda>ke s. ebind (evaluateExpression w g (snd ke) s) (\<lambda>r. Inr ((fst ke, fst r), snd r)))
          (own_entries properties) t =
        emapM (\<lambda>ke s. ebind (evaluateExpression w' g (snd ke) s) (\<lambda>r. Inr ((fst ke, fst r), snd r)))
          (own_entries properties) t"
    by (rule emapM_cong) (simp_all add: 3)
  then show ?case by simp
next
  case (4 w g elements t)
  have "emapM (\<lambda>e s. evaluateExpression w g e s) elements t =
        emapM (\<lambda>e s. evaluateExpression w' g e s) elements t"
    by (rule emapM_cong) (simp_all add: 4)
  then show ?case by simp
next
  case (5 w g template es t)
  then show ?case
    by (simp add: evaluateTemplate_def resolve_span_outside)
qed simp_all

lemma processParameters_outside:
  "same_outside w w' \<Longrightarrow> processParameters w g ps t = processParameters w' g ps t"
proof (induction ps arbitrary: g t)
  case Nil
  then show ?case by simp
next
  case (Cons p ps)
  have "(case defaultValue p of Some e \<Rightarrow> evaluateExpression w g e t | None \<Rightarrow> Inr (JUndefined, t)) =
        (case defaultValue p of Some e \<Rightarrow> evaluateExpression w' g e t | None \<Rightarrow> Inr (JUndefined, t))"
    using evaluateExpression_outside [OF Cons.prems] by (simp split: option.splits)
  then show ?case
    using Cons by (auto simp: ebind_def split: sum.splits)
qed

lemma processVariables_outside:
  "same_outside w w' \<Longrightarrow> processVariables w g vs t = processVariables w' g vs t"
proof (induction vs arbitrary: g t)
  case Nil
  then show ?case by simp
next
  case (Cons v vs)
  then show ?case
    using evaluateExpression_outside [OF Cons.prems]
    by (auto simp: ebind_def split: sum.splits)
qed

lemma set_assignments_erased:
  "set_assignments r n es = (xs, m) \<Longrightarrow> set_assignments r' n es = (xs', m') \<Longrightarrow>
     map blank_id xs = map blank_id xs' \<and> m = m'"
proof (induction es arbitrary: n xs m xs' m')
  case Nil
  then show ?case by simp
next
  case (Cons kv es)
  obtain k v where kv: "kv = (k, v)" by (cases kv) auto
  obtain ys l where a: "set_assignments r (Suc n) es = (ys, l)"
    by (cases "set_assignments r (Suc n) es") auto
  obtain ys' l' where b: "set_assignments r' (Suc n) es = (ys', l')"
    by (cases "set_assignments r' (Suc n) es") auto
  from Cons.IH [OF a b] Cons.prems a b show ?case
    by (auto simp: kv)
qed

definition erase_mapped :: "string \<Rightarrow> error + params \<times> nat \<Rightarrow> error + params \<times> nat" where
  "erase_mapped n8nNodeType r = map_sum id (\<lambda>mn. (erase_parameters n8nNodeType (fst mn), snd mn)) r"

lemma mapParameters_erased:
  assumes "getNodeTemplate ty = Some template"
  shows "erase_mapped ty (mapParameters template r n ps) = erase_mapped ty (mapParameters template r' n ps)"
proof (cases template)
  case IfTemplate
  with assms have ty: "ty = ''n8n-nodes-base.if''"
    by (auto simp: getNodeTemplate_def NODE_TEMPLATES_def split: if_splits)
  show ?thesis
    by (simp add: IfTemplate ty erase_mapped_def erase_parameters_def IfTemplate_mapParameters_def
          if_conditions_def at_key_def split: jsval.splits option.splits)
next
  case SetTemplate
  with assms have ty: "ty = ''n8n-nodes-base.set''"
    by (auto simp: getNodeTemplate_def NODE_TEMPLATES_def split: if_splits)
  show ?thesis
    by (cases "Object_entries (get_prop ps ''assignments'')")
       (auto simp: SetTemplate ty erase_mapped_def erase_parameters_def SetTemplate_mapParameters_def
          at_key_def Let_def split: prod.splits dest: set_assignments_erased)
qed (simp_all add: erase_mapped_def)


lemma map_sum_eqD:
  "map_sum id f x = map_sum id f y \<Longrightarrow>
     (\<exists>e. x = Inl e \<and> y = Inl e) \<or> (\<exists>a b. x = Inr a \<and> y = Inr b \<and> f a = f b)"
  by (cases x; cases y) auto

definition erase_node_parameters ::
  "string \<Rightarrow> error + params \<times> nat \<times> nat \<Rightarrow> error + params \<times> nat \<times> nat" where
  "erase_node_parameters n8nNodeType r =
     map_sum id (\<lambda>x. (erase_parameters n8nNodeType (fst x), snd x)) r"

lemma raw_parameters_outside:
  assumes "same_outside w w'"
  shows "emapM (\<lambda>ke s. ebind (evaluateExpression w g (snd ke) s) (\<lambda>r. Inr ((fst ke, fst r), snd r))) kes t =
         emapM (\<lambda>ke s. ebind (evaluateExpression w' g (snd ke) s) (\<lambda>r. Inr ((fst ke, fst r), snd r))) kes t"
  by (rule emapM_cong) (simp_all add: evaluateExpression_outside [OF assms])

lemma erase_parameters_untemplated:
  "getNodeTemplate ty = None \<Longrightarrow> erase_parameters ty ps = ps"
  by (auto simp: erase_parameters_def getNodeTemplate_def NODE_TEMPLATES_def)

lemma generateNodeParameters_erased:
  assumes "same_outside w w'"
  shows "erase_node_parameters ty (generateNodeParameters w g ps ty n t) =
         erase_node_parameters ty (generateNodeParameters w' g ps ty n t)"
proof (cases "emapM (\<lambda>ke s. ebind (evaluateExpression w' g (snd ke) s) (\<lambda>r. Inr ((fst ke, fst r), snd r)))
                (own_entries ps) t")
  case (Inl e)
  then show ?thesis
    by (simp add: generateNodeParameters_def raw_parameters_outside [OF assms])
next
  case (Inr r)
  obtain kvs t' where r: "r = (kvs, t')" by (cases r) auto
  show ?thesis
  proof (cases "getNodeTemplate ty")
    case None
    with Inr r show ?thesis
      by (simp add: generateNodeParameters_def raw_parameters_outside [OF assms])
  next
    case (Some template)
    from map_sum_eqD [OF mapParameters_erased [OF Some, of "rand_id w" n "object_of_entries kvs" "rand_id w'",
                        unfolded erase_mapped_def]]
    show ?thesis
      using Inr r Some
      by (auto simp: generateNodeParameters_def raw_parameters_outside [OF assms]
            erase_node_parameters_def)
  qed
qed

definition erase_step :: "N8nNode \<times> Generator \<times> nat \<times> nat \<Rightarrow> N8nNode \<times> Generator \<times> nat \<times> nat" where
  "erase_step x = (erase_node (fst x), snd x)"

lemma generateNode_erased:
  assumes "same_outside w w'"
  shows "map_sum id erase_step (generateNode w g e n t) = map_sum id erase_step (generateNode w' g e n t)"
proof (cases e)
  case (Module m)
  then show ?thesis by simp
next
  case (Node d)
  show ?thesis
  proof (cases "mapNodeType (nodeType d)")
    case (Inl err)
    with Node show ?thesis by simp
  next
    case (Inr ty)
    obtain p g' where gp: "getNodePosition g (node_name d) = (p, g')"
      by (cases "getNodePosition g (node_name d)") auto
    from map_sum_eqD [OF generateNodeParameters_erased [OF assms, of ty g' "node_parameters d" n t,
                        unfolded erase_node_parameters_def]]
    show ?thesis
      using Node Inr gp
      by (auto simp: erase_step_def erase_node_def)
  qed
qed

definition erase_steps ::
  "N8nNode list \<times> Generator \<times> nat \<times> nat \<Rightarrow> N8nNode list \<times> Generator \<times> nat \<times> nat" where
  "erase_steps x = (map erase_node (fst x), snd x)"

lemma generateNodes_erased:
  assumes "same_outside w w'"
  shows "map_sum id erase_steps (generateNodes w g es n t) = map_sum id erase_steps (generateNodes w' g es n t)"
proof (induction es arbitrary: g n t)
  case Nil
  then show ?case by simp
next
  case (Cons e es)
  from map_sum_eqD [OF generateNode_erased [OF assms, of g e n t]]
  show ?case
  proof
    assume "\<exists>err. generateNode w g e n t = Inl err \<and> generateNode w' g e n t = Inl err"
    then show ?thesis by auto
  next
    assume "\<exists>a b. generateNode w g e n t = Inr a \<and> generateNode w' g e n t = Inr b \<and>
                   erase_step a = erase_step b"
    then obtain node node' g' n' t' where
      a: "generateNode w g e n t = Inr (node, g', n', t')" and
      b: "generateNode w' g e n t = Inr (node', g', n', t')" and
      eq: "erase_node node = erase_node node'"
      by (auto simp: erase_step_def)
    from map_sum_eqD [OF Cons.IH [of g' n' t']] a b eq show ?thesis
      by (auto simp: erase_steps_def)
  qed
qed

lemma erase_node_name [simp]: "n8n_name (erase_node node) = n8n_name node"
  by (simp add: erase_node_def)

lemma erased_names:
  assumes "map erase_node ns = map erase_node ns'"
  shows "map n8n_name ns = map n8n_name ns'"
proof -
  have "map n8n_name (map erase_node ns) = map n8n_name (map erase_node ns')"
    using assms by simp
  then show ?thesis by (simp add: comp_def)
qed


text \<open>Names, types, positions and type versions of the nodes, in order.\<close>

definition layout_of :: "N8nWorkflow \<Rightarrow> (string \<times> string \<times> (int \<times> int) \<times> rat) list" where
  "layout_of graph =
     map (\<lambda>node. (n8n_name node, n8n_type node, n8n_position node, typeVersion node)) (wf_nodes graph)"

lemma erase_graph_layout: "layout_of (erase_graph graph) = layout_of graph"
  by (simp add: layout_of_def erase_graph_def erase_node_def comp_def)

definition first_run :: world where
  "first_run = example_world\<lparr>rand_id := (\<lambda>n. ''first-run'')\<rparr>"

definition second_run :: world where
  "second_run = example_world\<lparr>rand_id := (\<lambda>n. ''second-run'')\<rparr>"

definition if_program :: Program where
  "if_program =
     \<lparr>workflow =
        \<lparr>workflow_name = ''branch'', parameters = [], variables = [],
         nodes = [simple_node ''check'' ''flow.if''
                    [(''condition'', LiteralExpression (LString ''a > 1''))]],
         connections = []\<rparr>\<rparr>"

lemma comparison_match_gt: "comparison_match ''a > 1'' = Some (''a'', ''>'', ''1'')"
  by (simp add: regex_defs)

lemma if_program_parameters:
  "map_sum id (\<lambda>graph. map n8n_parameters (wf_nodes graph)) (generate w default_options if_program) =
     Inr [if_conditions
            [JObj [(''id'', JStr (rand_id w 0)), (''leftValue'', JStr ''a''),
                   (''rightValue'', JStr ''1''),
                   (''operator'', JObj [(''type'', JStr ''number''), (''operation'', JStr ''larger'')])]]
            ''and'']"
  using comparison_match_gt
  by (simp add: generator_defs if_program_def simple_node_def default_options_def is_digit_def
        IfTemplate_mapParameters_def js_or_def get_prop_def mapOperator_def js_trim_def
        is_space_def getOperatorType_def not_NaN_Number_def is_numeric_literal_def
        is_unsigned_decimal_def is_exponent_def)




end
